theory Spec2Isabelle
  imports Complex_Main "HOL-Library.AList"
begin

section \<open>Stateful neural-network layers (ivy/neural_net_stateful/layers.py)\<close>

text \<open>
  The layers of \<^verbatim>\<open>layers.py\<close> own a container of variables, create it at
  construction and bind it into a forward computation. The numeric kernels belong to the
  tensor library \<^verbatim>\<open>ivy\<close>, whose code is not part of the file; what the layers
  call of it is modelled below from the contracts of the specification, and the
  recurrence \<^verbatim>\<open>ivy.lstm_update\<close> is a parameter of the LSTM forward pass.

  Python floats are read as real numbers throughout: \<^verbatim>\<open>6 / n\<close> is the exact
  quotient and \<^verbatim>\<open>x ** 0.5\<close> the exact square root.
\<close>

subsection \<open>Errors\<close>

text \<open>
  \<open>InvalidConfiguration\<close>, \<open>ShapeMismatch\<close> and \<open>KeyNotFound\<close> are the error taxonomy
  of the specification; \<open>ZeroDivisionError\<close> and \<open>IndexError\<close> are Python's own;
  \<open>BackendError\<close> stands for a failure inside the tensor library that the layer passes
  on unchanged.
\<close>

datatype error =
  InvalidConfiguration | ShapeMismatch | KeyNotFound
  | ZeroDivisionError | IndexError | BackendError

definition ebind :: "error + 'a \<Rightarrow> ('a \<Rightarrow> error + 'b) \<Rightarrow> error + 'b" where
  "ebind m f = (case m of Inl e \<Rightarrow> Inl e | Inr x \<Rightarrow> f x)"

subsection \<open>Python numbers\<close>

text \<open>
  \<^verbatim>\<open>6 / n\<close> on integers is true division and raises on \<open>n = 0\<close>. A negative float
  raised to the power \<open>0.5\<close> is a complex number in Python 3, so the initialisation
  bound \<open>wlim\<close> is a float or a complex value.
\<close>

datatype pynum = PyFloat real | PyComplex real real

definition py_truediv :: "int \<Rightarrow> int \<Rightarrow> error + real" where
  "py_truediv a n = (if n = 0 then Inl ZeroDivisionError else Inr (real_of_int a / real_of_int n))"

definition py_pow_half :: "real \<Rightarrow> pynum" where
  "py_pow_half x = (if 0 \<le> x then PyFloat (sqrt x) else PyComplex 0 (sqrt (- x)))"

fun py_neg :: "pynum \<Rightarrow> pynum" where
  "py_neg (PyFloat x) = PyFloat (- x)"
| "py_neg (PyComplex x y) = PyComplex (- x) (- y)"

text \<open>\<^verbatim>\<open>str(i)\<close> for an index of \<^verbatim>\<open>range(n)\<close>: the decimal numeral.\<close>

fun str :: "nat \<Rightarrow> string" where
  "str n = (if n < 10 then [''0123456789'' ! n]
            else str (n div 10) @ [''0123456789'' ! (n mod 10)])"

declare str.simps [simp del]

text \<open>
  \<^verbatim>\<open>dict(zip(keys, values))\<close>: the pairs are inserted in order; a key met again keeps
  its place and takes the later value.
\<close>

definition py_dict :: "('k \<times> 'a) list \<Rightarrow> ('k \<times> 'a) list" where
  "py_dict kvs = foldl (\<lambda>d (k, x). AList.update k x d) [] kvs"

subsection \<open>Tensors and the operations of the tensor library\<close>

text \<open>
  A tensor is its shape, its elements in row-major order, the device target its creating
  call was given (\<open>None\<close> when the call passed none, which leaves the choice to the
  library's default) and the mark of a trainable variable.
\<close>

record tensor =
  shape :: "int list"
  elems :: "real list"
  device :: "string option"
  trainable :: bool

type_synonym rng = "nat \<Rightarrow> real"

definition numel :: "int list \<Rightarrow> nat" where
  "numel shp = nat (prod_list shp)"

text \<open>
  Modelled from the spec: \<^verbatim>\<open>ivy.variable\<close>, the wrapper that marks a tensor as
  trainable; the code of \<^verbatim>\<open>ivy\<close> is not in the file.
\<close>

definition variable :: "tensor \<Rightarrow> tensor" where
  "variable t = t\<lparr>trainable := True\<rparr>"

text \<open>
  Modelled from the spec: \<^verbatim>\<open>ivy.zeros(shape, dev_str)\<close>, a zero-filled tensor of a
  given shape and device target. No tensor has a negative extent: such a request fails
  inside the library.
\<close>

definition zeros :: "int list \<Rightarrow> string option \<Rightarrow> error + tensor" where
  "zeros shp dev =
     (if list_ex (\<lambda>k. k < 0) shp then Inl BackendError
      else Inr \<lparr>shape = shp, elems = replicate (numel shp) 0, device = dev, trainable = False\<rparr>)"

text \<open>
  Modelled from the spec: \<^verbatim>\<open>ivy.random_uniform(low, high, shape, dev_str)\<close>, a
  uniformly distributed random tensor within given bounds, shape and device target. The
  random source is a stream of unit samples; the call consumes one sample per element
  and returns the rest of the stream. Bounds that are not real numbers fail inside the
  library.
\<close>

definition random_uniform ::
  "pynum \<Rightarrow> pynum \<Rightarrow> int list \<Rightarrow> string option \<Rightarrow> rng \<Rightarrow> error + (tensor \<times> rng)" where
  "random_uniform low high shp dev g =
     (case (low, high) of
        (PyFloat lo, PyFloat hi) \<Rightarrow>
          if list_ex (\<lambda>k. k < 0) shp then Inl BackendError
          else Inr (\<lparr>shape = shp,
                      elems = map (\<lambda>i. lo + (hi - lo) * g i) [0..<numel shp],
                      device = dev, trainable = False\<rparr>,
                    \<lambda>i. g (i + numel shp))
      | _ \<Rightarrow> Inl BackendError)"

definition unit_samples :: "rng \<Rightarrow> bool" where
  "unit_samples g = (\<forall>i. 0 \<le> g i \<and> g i < 1)"

subsection \<open>Parameter containers and the module base\<close>

text \<open>
  A container is a variable or an ordered mapping from keys to containers
  (\<^verbatim>\<open>self.v.w\<close>, \<^verbatim>\<open>self.v.input.items()\<close>).
\<close>

datatype container = Var tensor | Container "(string \<times> container) list"

fun get :: "container \<Rightarrow> string \<Rightarrow> error + container" where
  "get (Var t) k = Inl KeyNotFound"
| "get (Container kvs) k = (case map_of kvs k of None \<Rightarrow> Inl KeyNotFound | Some c \<Rightarrow> Inr c)"

fun items :: "container \<Rightarrow> error + (string \<times> container) list" where
  "items (Var t) = Inl KeyNotFound"
| "items (Container kvs) = Inr kvs"

text \<open>A tensor operation handed a sub-container instead of a tensor fails in the library.\<close>

fun as_tensor :: "container \<Rightarrow> error + tensor" where
  "as_tensor (Var t) = Inr t"
| "as_tensor (Container kvs) = Inl BackendError"

record Module =
  dev_str :: string
  v :: container

text \<open>
  Modelled from the spec: \<^verbatim>\<open>Module.__init__(self, dev_str, v)\<close> of
  \<^verbatim>\<open>ivy/neural_net_stateful/module.py\<close>, which is not in the file. With no container
  supplied it invokes the variant's create-variables operation for the device target and
  stores the result; a caller-supplied container is accepted as it is.
\<close>

definition Module_init ::
  "('a Module_scheme \<Rightarrow> string \<Rightarrow> rng \<Rightarrow> error + (container \<times> rng)) \<Rightarrow>
   'a Module_scheme \<Rightarrow> string \<Rightarrow> container option \<Rightarrow> rng \<Rightarrow> error + ('a Module_scheme \<times> rng)" where
  "Module_init create self dev vopt g =
     (case vopt of
        None \<Rightarrow> ebind (create self dev g) (\<lambda>(c, g'). Inr (self\<lparr>dev_str := dev, v := c\<rparr>, g'))
      | Some c \<Rightarrow> Inr (self\<lparr>dev_str := dev, v := c\<rparr>, g))"

text \<open>
  Before \<^verbatim>\<open>Module.__init__\<close> runs, the attributes \<open>dev_str\<close> and \<open>v\<close> of a layer are
  not set; no create-variables operation reads them. The constructors below start from
  the device target and an empty container.
\<close>

subsection \<open>Linear\<close>

record Linear = Module +
  input_channels :: int
  output_channels :: int

definition Linear_create_variables ::
  "Linear \<Rightarrow> string \<Rightarrow> rng \<Rightarrow> error + (container \<times> rng)" where
  "Linear_create_variables self dev g =
     ebind (py_truediv 6 (Linear.output_channels self + Linear.input_channels self)) (\<lambda>q.
       let wlim = py_pow_half q in
       ebind (random_uniform (py_neg wlim) wlim
                [Linear.output_channels self, Linear.input_channels self] (Some dev) g)
         (\<lambda>(t, g').
            let w = variable t in
            ebind (zeros [Linear.output_channels self] (Some dev)) (\<lambda>z.
              let b = variable z in
              Inr (Container [(''w'', Var w), (''b'', Var b)], g'))))"

definition Linear_init ::
  "int \<Rightarrow> int \<Rightarrow> string \<Rightarrow> container option \<Rightarrow> rng \<Rightarrow> error + (Linear \<times> rng)" where
  "Linear_init ic oc dev vopt g =
     Module_init Linear_create_variables
       \<lparr>dev_str = dev, v = Container [],
        Linear.input_channels = ic, Linear.output_channels = oc\<rparr> dev vopt g"

subsection \<open>Convolutions\<close>

text \<open>
  Strides and dilations are an integer or a sequence of integers, the padding a named
  policy or a list of amounts; the layers only store them for the convolution call.
\<close>

datatype int_or_seq = IntArg int | SeqArg "int list"

datatype padding_arg = PadMode string | PadAmounts "int list"

record Conv1D = Module +
  input_channels :: int
  output_channels :: int
  filter_size :: int
  strides :: int_or_seq
  padding :: padding_arg
  data_format :: string
  dilations :: int_or_seq

definition Conv1D_create_variables ::
  "Conv1D \<Rightarrow> string \<Rightarrow> rng \<Rightarrow> error + (container \<times> rng)" where
  "Conv1D_create_variables self dev g =
     ebind (py_truediv 6 (Conv1D.output_channels self + Conv1D.input_channels self)) (\<lambda>q.
       let wlim = py_pow_half q;
           w_shape =
             (if Conv1D.data_format self = ''NWC''
              then [Conv1D.filter_size self, Conv1D.output_channels self,
                    Conv1D.input_channels self]
              else [Conv1D.output_channels self, Conv1D.input_channels self,
                    Conv1D.filter_size self]) in
       ebind (random_uniform (py_neg wlim) wlim w_shape (Some dev) g) (\<lambda>(t, g').
         let w = variable t in
         ebind (zeros [1, 1, Conv1D.output_channels self] (Some dev)) (\<lambda>z.
           let b = variable z in
           Inr (Container [(''w'', Var w), (''b'', Var b)], g'))))"

definition Conv1D_init ::
  "int \<Rightarrow> int \<Rightarrow> int \<Rightarrow> int_or_seq \<Rightarrow> padding_arg \<Rightarrow> string \<Rightarrow> int_or_seq \<Rightarrow> string \<Rightarrow>
   container option \<Rightarrow> rng \<Rightarrow> error + (Conv1D \<times> rng)" where
  "Conv1D_init ic oc fs st pad fmt dil dev vopt g =
     Module_init Conv1D_create_variables
       \<lparr>dev_str = dev, v = Container [],
        Conv1D.input_channels = ic, Conv1D.output_channels = oc, Conv1D.filter_size = fs,
        Conv1D.strides = st, Conv1D.padding = pad, Conv1D.data_format = fmt,
        Conv1D.dilations = dil\<rparr> dev vopt g"

record Conv1DTranspose = Module +
  input_channels :: int
  output_channels :: int
  filter_size :: int
  strides :: int_or_seq
  padding :: padding_arg
  output_shape :: "int list option"
  data_format :: string
  dilations :: int_or_seq

definition Conv1DTranspose_create_variables ::
  "Conv1DTranspose \<Rightarrow> string \<Rightarrow> rng \<Rightarrow> error + (container \<times> rng)" where
  "Conv1DTranspose_create_variables self dev g =
     ebind (py_truediv 6 (Conv1DTranspose.output_channels self
                          + Conv1DTranspose.input_channels self)) (\<lambda>q.
       let wlim = py_pow_half q;
           w_shape =
             (if Conv1DTranspose.data_format self = ''NWC''
              then [Conv1DTranspose.filter_size self, Conv1DTranspose.output_channels self,
                    Conv1DTranspose.input_channels self]
              else [Conv1DTranspose.output_channels self, Conv1DTranspose.input_channels self,
                    Conv1DTranspose.filter_size self]) in
       ebind (random_uniform (py_neg wlim) wlim w_shape (Some dev) g) (\<lambda>(t, g').
         let w = variable t in
         ebind (zeros [1, 1, Conv1DTranspose.output_channels self] (Some dev)) (\<lambda>z.
           let b = variable z in
           Inr (Container [(''w'', Var w), (''b'', Var b)], g'))))"

definition Conv1DTranspose_init ::
  "int \<Rightarrow> int \<Rightarrow> int \<Rightarrow> int_or_seq \<Rightarrow> padding_arg \<Rightarrow> int list option \<Rightarrow> string \<Rightarrow>
   int_or_seq \<Rightarrow> string \<Rightarrow> container option \<Rightarrow> rng \<Rightarrow> error + (Conv1DTranspose \<times> rng)" where
  "Conv1DTranspose_init ic oc fs st pad osh fmt dil dev vopt g =
     Module_init Conv1DTranspose_create_variables
       \<lparr>dev_str = dev, v = Container [],
        Conv1DTranspose.input_channels = ic, Conv1DTranspose.output_channels = oc,
        Conv1DTranspose.filter_size = fs, Conv1DTranspose.strides = st,
        Conv1DTranspose.padding = pad, Conv1DTranspose.output_shape = osh,
        Conv1DTranspose.data_format = fmt, Conv1DTranspose.dilations = dil\<rparr> dev vopt g"

record Conv2D = Module +
  input_channels :: int
  output_channels :: int
  filter_shape :: "int list"
  strides :: int_or_seq
  padding :: padding_arg
  data_format :: string
  dilations :: int_or_seq

definition Conv2D_create_variables ::
  "Conv2D \<Rightarrow> string \<Rightarrow> rng \<Rightarrow> error + (container \<times> rng)" where
  "Conv2D_create_variables self dev g =
     ebind (py_truediv 6 (Conv2D.output_channels self + Conv2D.input_channels self)) (\<lambda>q.
       let wlim = py_pow_half q;
           w_shape =
             (if Conv2D.data_format self = ''NHWC''
              then Conv2D.filter_shape self
                   @ [Conv2D.output_channels self, Conv2D.input_channels self]
              else [Conv2D.output_channels self, Conv2D.input_channels self]
                   @ Conv2D.filter_shape self) in
       ebind (random_uniform (py_neg wlim) wlim w_shape (Some dev) g) (\<lambda>(t, g').
         let w = variable t in
         ebind (zeros [1, 1, 1, Conv2D.output_channels self] (Some dev)) (\<lambda>z.
           let b = variable z in
           Inr (Container [(''w'', Var w), (''b'', Var b)], g'))))"

definition Conv2D_init ::
  "int \<Rightarrow> int \<Rightarrow> int list \<Rightarrow> int_or_seq \<Rightarrow> padding_arg \<Rightarrow> string \<Rightarrow> int_or_seq \<Rightarrow> string \<Rightarrow>
   container option \<Rightarrow> rng \<Rightarrow> error + (Conv2D \<times> rng)" where
  "Conv2D_init ic oc fsh st pad fmt dil dev vopt g =
     Module_init Conv2D_create_variables
       \<lparr>dev_str = dev, v = Container [],
        Conv2D.input_channels = ic, Conv2D.output_channels = oc, Conv2D.filter_shape = fsh,
        Conv2D.strides = st, Conv2D.padding = pad, Conv2D.data_format = fmt,
        Conv2D.dilations = dil\<rparr> dev vopt g"

record Conv2DTranspose = Module +
  input_channels :: int
  output_channels :: int
  filter_shape :: "int list"
  strides :: int_or_seq
  padding :: padding_arg
  output_shape :: "int list option"
  data_format :: string
  dilations :: int_or_seq

definition Conv2DTranspose_create_variables ::
  "Conv2DTranspose \<Rightarrow> string \<Rightarrow> rng \<Rightarrow> error + (container \<times> rng)" where
  "Conv2DTranspose_create_variables self dev g =
     ebind (py_truediv 6 (Conv2DTranspose.output_channels self
                          + Conv2DTranspose.input_channels self)) (\<lambda>q.
       let wlim = py_pow_half q;
           w_shape =
             (if Conv2DTranspose.data_format self = ''NHWC''
              then Conv2DTranspose.filter_shape self
                   @ [Conv2DTranspose.output_channels self, Conv2DTranspose.input_channels self]
              else [Conv2DTranspose.output_channels self, Conv2DTranspose.input_channels self]
                   @ Conv2DTranspose.filter_shape self) in
       ebind (random_uniform (py_neg wlim) wlim w_shape (Some dev) g) (\<lambda>(t, g').
         let w = variable t in
         ebind (zeros [1, 1, 1, Conv2DTranspose.output_channels self] (Some dev)) (\<lambda>z.
           let b = variable z in
           Inr (Container [(''w'', Var w), (''b'', Var b)], g'))))"

definition Conv2DTranspose_init ::
  "int \<Rightarrow> int \<Rightarrow> int list \<Rightarrow> int_or_seq \<Rightarrow> padding_arg \<Rightarrow> int list option \<Rightarrow> string \<Rightarrow>
   int_or_seq \<Rightarrow> string \<Rightarrow> container option \<Rightarrow> rng \<Rightarrow> error + (Conv2DTranspose \<times> rng)" where
  "Conv2DTranspose_init ic oc fsh st pad osh fmt dil dev vopt g =
     Module_init Conv2DTranspose_create_variables
       \<lparr>dev_str = dev, v = Container [],
        Conv2DTranspose.input_channels = ic, Conv2DTranspose.output_channels = oc,
        Conv2DTranspose.filter_shape = fsh, Conv2DTranspose.strides = st,
        Conv2DTranspose.padding = pad, Conv2DTranspose.output_shape = osh,
        Conv2DTranspose.data_format = fmt, Conv2DTranspose.dilations = dil\<rparr> dev vopt g"

subsection \<open>LSTM\<close>

text \<open>
  \<^verbatim>\<open>range(n)\<close> is empty for \<open>n \<le> 0\<close>. A list comprehension evaluates its element
  expression once per index, in order, and stops at the first failure; the second form
  threads the random source through the calls.
\<close>

definition py_range :: "int \<Rightarrow> nat list" where
  "py_range n = [0..<nat n]"

fun list_comp :: "(nat \<Rightarrow> error + 'a) \<Rightarrow> nat list \<Rightarrow> error + 'a list" where
  "list_comp f [] = Inr []"
| "list_comp f (i # js) = ebind (f i) (\<lambda>x. ebind (list_comp f js) (\<lambda>xs. Inr (x # xs)))"

fun list_comp_rng ::
  "(nat \<Rightarrow> rng \<Rightarrow> error + ('a \<times> rng)) \<Rightarrow> nat list \<Rightarrow> rng \<Rightarrow> error + ('a list \<times> rng)" where
  "list_comp_rng f [] g = Inr ([], g)"
| "list_comp_rng f (i # js) g =
     ebind (f i g) (\<lambda>(x, g'). ebind (list_comp_rng f js g') (\<lambda>(xs, g''). Inr (x # xs, g'')))"

record LSTM = Module +
  input_channels :: int
  output_channels :: int
  num_layers :: int
  return_sequence :: bool
  return_state :: bool

definition LSTM_get_initial_state ::
  "LSTM \<Rightarrow> int list \<Rightarrow> error + (tensor list \<times> tensor list)" where
  "LSTM_get_initial_state self batch_shape =
     ebind (list_comp (\<lambda>i. zeros (batch_shape @ [LSTM.output_channels self]) None)
              (py_range (num_layers self))) (\<lambda>hs.
       ebind (list_comp (\<lambda>i. zeros (batch_shape @ [LSTM.output_channels self]) None)
                (py_range (num_layers self))) (\<lambda>cs.
         Inr (hs, cs)))"

definition LSTM_create_variables ::
  "LSTM \<Rightarrow> string \<Rightarrow> rng \<Rightarrow> error + (container \<times> rng)" where
  "LSTM_create_variables self dev g =
     ebind (py_truediv 6 (LSTM.output_channels self + LSTM.input_channels self)) (\<lambda>q.
       let wlim = py_pow_half q in
       ebind (list_comp_rng
                (\<lambda>i g0. ebind (random_uniform (py_neg wlim) wlim
                                 [if i = 0 then LSTM.input_channels self
                                  else LSTM.output_channels self,
                                  4 * LSTM.output_channels self] (Some dev) g0)
                           (\<lambda>(t, g'). Inr (Container [(''w'', Var (variable t))], g')))
                (py_range (num_layers self)) g) (\<lambda>(ws, g1).
         let input_weights =
               py_dict (zip (map (\<lambda>i. ''layer_'' @ str i) (py_range (num_layers self))) ws) in
         ebind (py_truediv 6 (LSTM.output_channels self + LSTM.output_channels self)) (\<lambda>q2.
           let wlim2 = py_pow_half q2 in
           ebind (list_comp_rng
                    (\<lambda>i g0. ebind (random_uniform (py_neg wlim2) wlim2
                                     [LSTM.output_channels self,
                                      4 * LSTM.output_channels self] (Some dev) g0)
                               (\<lambda>(t, g'). Inr (Container [(''w'', Var (variable t))], g')))
                    (py_range (num_layers self)) g1) (\<lambda>(rs, g2).
             let recurrent_weights =
                   py_dict (zip (map (\<lambda>i. ''layer_'' @ str i) (py_range (num_layers self))) rs) in
             Inr (Container [(''input'', Container input_weights),
                             (''recurrent'', Container recurrent_weights)], g2)))))"

definition LSTM_init ::
  "int \<Rightarrow> int \<Rightarrow> int \<Rightarrow> bool \<Rightarrow> bool \<Rightarrow> string \<Rightarrow> container option \<Rightarrow> rng \<Rightarrow>
   error + (LSTM \<times> rng)" where
  "LSTM_init ic oc n rseq rst dev vopt g =
     Module_init LSTM_create_variables
       \<lparr>dev_str = dev, v = Container [],
        LSTM.input_channels = ic, LSTM.output_channels = oc, num_layers = n,
        return_sequence = rseq, return_state = rst\<rparr> dev vopt g"

text \<open>Row \<open>r\<close> of a row-major matrix with rows of length \<open>n\<close>, and the inner product.\<close>

definition dot :: "real list \<Rightarrow> real list \<Rightarrow> real" where
  "dot xs ys = sum_list (map2 (*) xs ys)"

definition row :: "nat \<Rightarrow> nat \<Rightarrow> real list \<Rightarrow> real list" where
  "row n r xs = take n (drop (r * n) xs)"

text \<open>
  Modelled from the spec: the last timestep of a sequence tensor,
  \<^verbatim>\<open>h_t[..., -1, :]\<close>; indexing belongs to the tensor library. The tensor needs at
  least two dimensions and a time dimension that is not empty.
\<close>

definition last_step :: "tensor \<Rightarrow> error + tensor" where
  "last_step t =
     (case rev (shape t) of
        d # n # batch_rev \<Rightarrow>
          if n \<le> 0 then Inl IndexError
          else Inr (t\<lparr>shape := rev batch_rev @ [d],
                      elems := concat (map (\<lambda>r. row (nat d) (r * nat n + (nat n - 1)) (elems t))
                                         [0..<numel (rev batch_rev)])\<rparr>)
      | _ \<Rightarrow> Inl IndexError)"

text \<open>
  \<^verbatim>\<open>ivy.lstm_update(x, init_h, init_c, kernel, recurrent_kernel)\<close> returns the output
  sequence and the final cell state. Its code is not in the file: the forward pass takes
  it as a parameter.
\<close>

type_synonym lstm_update =
  "tensor \<Rightarrow> tensor \<Rightarrow> tensor \<Rightarrow> tensor \<Rightarrow> tensor \<Rightarrow> error + (tensor \<times> tensor)"

text \<open>
  The loop of \<^verbatim>\<open>LSTM._forward\<close> over
  \<^verbatim>\<open>zip(initial_state[0], initial_state[1], self.v.input.items(), self.v.recurrent.items())\<close>,
  with its three loop variables \<open>h_t\<close>, \<open>h_n_list\<close> and \<open>c_n_list\<close>.
\<close>

fun LSTM_layers ::
  "lstm_update \<Rightarrow> (tensor \<times> tensor \<times> (string \<times> container) \<times> (string \<times> container)) list \<Rightarrow>
   tensor \<Rightarrow> tensor list \<Rightarrow> tensor list \<Rightarrow> error + (tensor \<times> tensor list \<times> tensor list)" where
  "LSTM_layers upd [] h_t h_n_list c_n_list = Inr (h_t, h_n_list, c_n_list)"
| "LSTM_layers upd ((h_0, c_0, (ki, lstm_input_var), (kr, lstm_recurrent_var)) # rest)
     h_t h_n_list c_n_list =
     ebind (get lstm_input_var ''w'') (\<lambda>cw.
       ebind (get lstm_recurrent_var ''w'') (\<lambda>cr.
         ebind (as_tensor cw) (\<lambda>wi.
           ebind (as_tensor cr) (\<lambda>wr.
             ebind (upd h_t h_0 c_0 wi wr) (\<lambda>(h_t', c_n).
               ebind (last_step h_t') (\<lambda>h_n.
                 LSTM_layers upd rest h_t' (h_n_list @ [h_n]) (c_n_list @ [c_n])))))))"

datatype lstm_result = Output tensor | OutputAndState tensor "tensor list \<times> tensor list"

definition LSTM_forward ::
  "lstm_update \<Rightarrow> LSTM \<Rightarrow> tensor \<Rightarrow> (tensor list \<times> tensor list) option \<Rightarrow> error + lstm_result" where
  "LSTM_forward upd self inputs initial_state =
     ebind (case initial_state of
              None \<Rightarrow> LSTM_get_initial_state self
                        (take (length (shape inputs) - 2) (shape inputs))
            | Some st \<Rightarrow> Inr st) (\<lambda>st.
       ebind (get (v self) ''input'') (\<lambda>vi.
         ebind (items vi) (\<lambda>input_items.
           ebind (get (v self) ''recurrent'') (\<lambda>vr.
             ebind (items vr) (\<lambda>recurrent_items.
               ebind (LSTM_layers upd
                        (zip (fst st) (zip (snd st) (zip input_items recurrent_items)))
                        inputs [] []) (\<lambda>(h_t, h_n_list, c_n_list).
                 ebind (if \<not> return_sequence self then last_step h_t else Inr h_t) (\<lambda>h_out.
                   if \<not> return_state self then Inr (Output h_out)
                   else Inr (OutputAndState h_out (h_n_list, c_n_list)))))))))"

text \<open>
  The entries that \<^verbatim>\<open>LSTM._create_variables\<close> builds for a list of per-layer
  weights, and the tensors that a container holds.
\<close>

definition layer_entries :: "tensor list \<Rightarrow> (string \<times> container) list" where
  "layer_entries ts =
     map (\<lambda>i. (''layer_'' @ str i, Container [(''w'', Var (ts ! i))])) [0..<length ts]"

fun tensors_of :: "container \<Rightarrow> tensor list" where
  "tensors_of (Var t) = [t]"
| "tensors_of (Container kvs) = concat (map (\<lambda>kc. tensors_of (snd kc)) kvs)"

text \<open>
  The forward pass in the words of the specification: the layers are processed in order,
  layer \<open>i\<close> consuming the output sequence of the layers before it (the input for layer
  \<open>0\<close>), its initial hidden and cell state and its two weights; its recurrence is the
  update operation, which returns the new output sequence and the final cell state; the
  final hidden state of a layer is the last timestep of its output sequence.
  \<open>spec_layers \<dots> k\<close> is the result after the first \<open>k\<close> layers.
\<close>

fun spec_layers ::
  "lstm_update \<Rightarrow> tensor list \<Rightarrow> tensor list \<Rightarrow> tensor list \<Rightarrow> tensor list \<Rightarrow> tensor \<Rightarrow> nat \<Rightarrow>
   error + (tensor \<times> tensor list \<times> tensor list)" where
  "spec_layers upd hs0 cs0 wis wrs x 0 = Inr (x, [], [])"
| "spec_layers upd hs0 cs0 wis wrs x (Suc i) =
     ebind (spec_layers upd hs0 cs0 wis wrs x i) (\<lambda>(s, hs, cs).
       ebind (upd s (hs0 ! i) (cs0 ! i) (wis ! i) (wrs ! i)) (\<lambda>(s', c).
         ebind (last_step s') (\<lambda>h. Inr (s', hs @ [h], cs @ [c]))))"

text \<open>
  The output policy in the words of the specification: if \<open>return_sequence\<close> is false
  the output is truncated to the last timestep; if \<open>return_state\<close> is false only the
  output tensor is returned, otherwise the output with the collected per-layer states.
\<close>

definition spec_output :: "LSTM \<Rightarrow> tensor \<times> tensor list \<times> tensor list \<Rightarrow> error + lstm_result" where
  "spec_output self r =
     (case r of (seq, hs, cs) \<Rightarrow>
        ebind (if return_sequence self then Inr seq else last_step seq) (\<lambda>out.
          if return_state self then Inr (OutputAndState out (hs, cs)) else Inr (Output out)))"

text \<open>
  Modelled from the spec: the contract of \<^verbatim>\<open>ivy.lstm_update\<close> on shapes, as the
  docstring of \<^verbatim>\<open>LSTM._forward\<close> gives them. For an input sequence
  \<open>batch @ [T, in]\<close>, states \<open>batch @ [out]\<close> and weights \<open>[in, 4 * out]\<close> and
  \<open>[out, 4 * out]\<close> it returns an output sequence \<open>batch @ [T, out]\<close> and a final cell
  state \<open>batch @ [out]\<close>.
\<close>

definition lstm_update_contract :: "lstm_update \<Rightarrow> bool" where
  "lstm_update_contract upd =
     (\<forall>x h0 c0 wi wr batch T ic oc.
        shape x = batch @ [T, ic] \<and> shape h0 = batch @ [oc] \<and> shape c0 = batch @ [oc]
        \<and> shape wi = [ic, 4 * oc] \<and> shape wr = [oc, 4 * oc]
        \<longrightarrow> (\<exists>hts ct. upd x h0 c0 wi wr = Inr (hts, ct)
               \<and> shape hts = batch @ [T, oc] \<and> shape ct = batch @ [oc]))"

subsection \<open>The dense operation and the forward pass of Linear\<close>

text \<open>
  Modelled from the spec: \<^verbatim>\<open>ivy.linear(input, weight, bias)\<close>, the dense operation
  \<open>output = input \<cdot> weight\<^sup>T + bias\<close> over the trailing dimension of an arbitrarily
  batched input, the batch dimensions unchanged. A trailing dimension that is not the
  weight's input-channel count is a \<open>ShapeMismatch\<close>.
\<close>

definition linear :: "tensor \<Rightarrow> tensor \<Rightarrow> tensor \<Rightarrow> error + tensor" where
  "linear x w b =
     (case shape w of
        [oc, ic] \<Rightarrow>
          if shape x = [] \<or> last (shape x) \<noteq> ic \<or> shape b \<noteq> [oc] then Inl ShapeMismatch
          else Inr \<lparr>shape = butlast (shape x) @ [oc],
                    elems = concat (map (\<lambda>r. map (\<lambda>k. dot (row (nat ic) r (elems x))
                                                         (row (nat ic) k (elems w))
                                                    + elems b ! k) [0..<nat oc])
                                     [0..<numel (butlast (shape x))]),
                    device = device x, trainable = False\<rparr>
      | _ \<Rightarrow> Inl ShapeMismatch)"

definition Linear_forward :: "Linear \<Rightarrow> tensor \<Rightarrow> error + tensor" where
  "Linear_forward self inputs =
     ebind (get (v self) ''w'') (\<lambda>cw.
       ebind (get (v self) ''b'') (\<lambda>cb.
         ebind (as_tensor cw) (\<lambda>w.
           ebind (as_tensor cb) (\<lambda>b. linear inputs w b))))"

subsection \<open>A concrete random source\<close>

text \<open>A sample stream for concrete runs: every sample is one half.\<close>

definition mid_samples :: rng where
  "mid_samples i = 1 / 2"

subsection \<open>Concrete objects for runs\<close>

text \<open>
  An update operation that meets the shape contract and is simple enough to run by
  hand: every entry of the output sequence is the sum of the entries of the input
  sequence and of the initial hidden state, and the cell state is passed on with every
  entry increased by one.
\<close>

definition sum_lstm_update :: lstm_update where
  "sum_lstm_update x h0 c0 wi wr =
     (case (rev (shape x), shape wi, shape wr) of
        (ic # T # batch_rev, [ic', g4], [oc, g4']) \<Rightarrow>
          if ic' = ic \<and> g4 = 4 * oc \<and> g4' = 4 * oc
             \<and> shape h0 = rev batch_rev @ [oc] \<and> shape c0 = rev batch_rev @ [oc]
          then Inr (\<lparr>shape = rev batch_rev @ [T, oc],
                      elems = replicate (numel (rev batch_rev @ [T, oc]))
                                (sum_list (elems x) + sum_list (elems h0)),
                      device = device x, trainable = False\<rparr>,
                    c0\<lparr>elems := map (\<lambda>y. y + 1) (elems c0)\<rparr>)
          else Inl ShapeMismatch
      | _ \<Rightarrow> Inl ShapeMismatch)"

text \<open>
  A two-layer LSTM with two input channels and one output channel, its weights all
  zero, and an input of one batch entry with two timesteps.
\<close>

definition example_weights :: "tensor list" where
  "example_weights =
     [\<lparr>shape = [2, 4], elems = replicate 8 0, device = Some ''cpu'', trainable = True\<rparr>,
      \<lparr>shape = [1, 4], elems = replicate 4 0, device = Some ''cpu'', trainable = True\<rparr>]"

definition example_recurrent :: "tensor list" where
  "example_recurrent =
     [\<lparr>shape = [1, 4], elems = replicate 4 0, device = Some ''cpu'', trainable = True\<rparr>,
      \<lparr>shape = [1, 4], elems = replicate 4 0, device = Some ''cpu'', trainable = True\<rparr>]"

definition example_lstm :: "bool \<Rightarrow> bool \<Rightarrow> LSTM" where
  "example_lstm rseq rst =
     \<lparr>dev_str = ''cpu'',
      v = Container [(''input'', Container (layer_entries example_weights)),
                     (''recurrent'', Container (layer_entries example_recurrent))],
      LSTM.input_channels = 2, LSTM.output_channels = 1, num_layers = 2,
      return_sequence = rseq, return_state = rst\<rparr>"

definition example_input :: tensor where
  "example_input = \<lparr>shape = [1, 2, 2], elems = [1, 2, 3, 4], device = None, trainable = False\<rparr>"

definition example_state :: "real \<Rightarrow> tensor" where
  "example_state a = \<lparr>shape = [1, 1], elems = [a], device = None, trainable = False\<rparr>"

section \<open>Properties\<close>

lemma ebind_simps [simp]:
  "ebind (Inl e) f = Inl e"
  "ebind (Inr x) f = f x"
  by (simp_all add: ebind_def)

lemma random_uniform_float:
  assumes "\<not> list_ex (\<lambda>k. k < 0) shp"
  shows "random_uniform (PyFloat lo) (PyFloat hi) shp dev g =
           Inr (\<lparr>shape = shp, elems = map (\<lambda>i. lo + (hi - lo) * g i) [0..<numel shp],
                  device = dev, trainable = False\<rparr>, \<lambda>i. g (i + numel shp))"
  using assms by (simp add: random_uniform_def)

lemma unit_sample_between:
  assumes "unit_samples g" and "0 \<le> wl"
  shows "- wl \<le> - wl + (wl - (- wl)) * g i" and "- wl + (wl - (- wl)) * g i \<le> wl"
proof -
  from assms(1) have g0: "0 \<le> g i" and g1: "g i < 1"
    by (simp_all add: unit_samples_def)
  from g0 assms(2) have "0 \<le> (2 * wl) * g i" by simp
  then show "- wl \<le> - wl + (wl - (- wl)) * g i" by simp
  from g1 assms(2) have "(2 * wl) * g i \<le> (2 * wl) * 1"
    by (intro mult_left_mono) simp_all
  then show "- wl + (wl - (- wl)) * g i \<le> wl" by simp
qed

text \<open>
  C1. For channel counts that are not negative and not both zero, the variables that
  \<open>Linear\<close> creates are a weight of shape \<open>[output_channels, input_channels]\<close> with one
  element per entry, each within \<open>[-wlim, wlim]\<close> for
  \<open>wlim = sqrt (6 / (input_channels + output_channels))\<close>, and a bias of shape
  \<open>[output_channels]\<close> whose \<open>output_channels\<close> elements are all zero. The random source
  is a stream of unit samples.
\<close>

theorem Linear_create_variables_glorot:
  assumes ic: "0 \<le> Linear.input_channels self"
    and oc: "0 \<le> Linear.output_channels self"
    and pos: "0 < Linear.input_channels self + Linear.output_channels self"
    and g: "unit_samples g"
  shows "\<exists>w b g'.
      Linear_create_variables self dev g = Inr (Container [(''w'', Var w), (''b'', Var b)], g')
    \<and> shape w = [Linear.output_channels self, Linear.input_channels self]
    \<and> length (elems w) = nat (Linear.output_channels self * Linear.input_channels self)
    \<and> list_all (\<lambda>x. - sqrt (6 / real_of_int (Linear.input_channels self + Linear.output_channels self)) \<le> x
               \<and> x \<le> sqrt (6 / real_of_int (Linear.input_channels self + Linear.output_channels self)))
         (elems w)
    \<and> shape b = [Linear.output_channels self]
    \<and> elems b = replicate (nat (Linear.output_channels self)) 0"
proof -
  let ?ic = "Linear.input_channels self" and ?oc = "Linear.output_channels self"
  let ?wl = "sqrt (6 / real_of_int (?oc + ?ic))"
  let ?w = "\<lparr>shape = [?oc, ?ic],
             elems = map (\<lambda>i. - ?wl + (?wl - (- ?wl)) * g i) [0..<numel [?oc, ?ic]],
             device = Some dev, trainable = False\<rparr>"
  let ?b = "\<lparr>shape = [?oc], elems = replicate (numel [?oc]) (0::real),
             device = Some dev, trainable = False\<rparr>"
  have q: "py_truediv 6 (?oc + ?ic) = Inr (6 / real_of_int (?oc + ?ic))"
    using pos by (simp add: py_truediv_def)
  have wl: "py_pow_half (6 / real_of_int (?oc + ?ic)) = PyFloat ?wl"
    using pos by (simp add: py_pow_half_def)
  have wl0: "0 \<le> ?wl" using pos by simp
  have nn: "\<not> list_ex (\<lambda>k. k < 0) [?oc, ?ic]"
    using ic oc by simp
  have ru: "random_uniform (py_neg (PyFloat ?wl)) (PyFloat ?wl) [?oc, ?ic] (Some dev) g
              = Inr (?w, \<lambda>i. g (i + numel [?oc, ?ic]))"
    unfolding py_neg.simps by (rule random_uniform_float [OF nn])
  have z: "zeros [?oc] (Some dev) = Inr ?b"
    using oc by (simp add: zeros_def)
  have run: "Linear_create_variables self dev g
      = Inr (Container [(''w'', Var (variable ?w)), (''b'', Var (variable ?b))],
             \<lambda>i. g (i + numel [?oc, ?ic]))"
    unfolding Linear_create_variables_def q ebind_simps Let_def wl ru z by simp
  have bounds: "list_all (\<lambda>x. - ?wl \<le> x \<and> x \<le> ?wl) (elems (variable ?w))"
    unfolding list_all_iff using unit_sample_between [OF g wl0] by (auto simp: variable_def)
  have comm: "?ic + ?oc = ?oc + ?ic" by simp
  show ?thesis
    unfolding comm
    by (intro exI conjI, rule run, simp_all only: bounds)
       (simp_all add: variable_def numel_def)
qed

theorem Linear_create_variables_glorot_witness:
  "unit_samples (\<lambda>i. 1 / 2) \<and>
   (\<exists>w b g'.
      Linear_create_variables
        \<lparr>dev_str = ''cpu'', v = Container [],
         Linear.input_channels = 2, Linear.output_channels = 1\<rparr> ''cpu'' (\<lambda>i. 1 / 2)
        = Inr (Container [(''w'', Var w), (''b'', Var b)], g')
    \<and> shape w = [1, 2] \<and> length (elems w) = 2
    \<and> list_all (\<lambda>x. - sqrt 2 \<le> x \<and> x \<le> sqrt 2) (elems w)
    \<and> shape b = [1] \<and> elems b = [0])"
  using Linear_create_variables_glorot
    [of "\<lparr>dev_str = ''cpu'', v = Container [],
          Linear.input_channels = 2, Linear.output_channels = 1\<rparr>" "\<lambda>i. 1 / 2" "''cpu''"]
  by (simp add: unit_samples_def)

subsection \<open>Conv2D: created variables\<close>

lemma glorot_bound:
  assumes "0 < n"
  shows "py_truediv 6 n = Inr (6 / real_of_int n)"
    and "py_pow_half (6 / real_of_int n) = PyFloat (sqrt (6 / real_of_int n))"
  using assms by (simp_all add: py_truediv_def py_pow_half_def)

lemma zeros_nonneg:
  assumes "list_all (\<lambda>k. 0 \<le> k) shp"
  shows "zeros shp dev = Inr \<lparr>shape = shp, elems = replicate (numel shp) 0, device = dev, trainable = False\<rparr>"
  using assms by (auto simp: zeros_def list_all_iff list_ex_iff)

lemma random_uniform_nonneg:
  assumes "list_all (\<lambda>k. 0 \<le> k) shp"
  shows "random_uniform (py_neg (PyFloat wl)) (PyFloat wl) shp dev g =
           Inr (\<lparr>shape = shp, elems = map (\<lambda>i. - wl + (wl - (- wl)) * g i) [0..<numel shp],
                  device = dev, trainable = False\<rparr>, \<lambda>i. g (i + numel shp))"
  using assms by (auto simp: random_uniform_def list_all_iff list_ex_iff)

text \<open>
  C4. For channel counts that are not negative and not both zero and a filter shape
  without negative entries, the weight that \<open>Conv2D\<close> creates has shape
  \<open>filter_shape @ [output_channels, input_channels]\<close> under the layout \<open>NHWC\<close> and
  \<open>[output_channels, input_channels] @ filter_shape\<close> under \<open>NCHW\<close>, and the bias is
  the all-zero tensor of shape \<open>[1, 1, 1, output_channels]\<close>.
\<close>

theorem Conv2D_create_variables_shapes:
  assumes ic: "0 \<le> Conv2D.input_channels self"
    and oc: "0 \<le> Conv2D.output_channels self"
    and pos: "0 < Conv2D.input_channels self + Conv2D.output_channels self"
    and fs: "list_all (\<lambda>k. 0 \<le> k) (Conv2D.filter_shape self)"
  shows "\<exists>w b g'.
      Conv2D_create_variables self dev g = Inr (Container [(''w'', Var w), (''b'', Var b)], g')
    \<and> (Conv2D.data_format self = ''NHWC'' \<longrightarrow>
         shape w = Conv2D.filter_shape self
                   @ [Conv2D.output_channels self, Conv2D.input_channels self])
    \<and> (Conv2D.data_format self = ''NCHW'' \<longrightarrow>
         shape w = [Conv2D.output_channels self, Conv2D.input_channels self]
                   @ Conv2D.filter_shape self)
    \<and> shape b = [1, 1, 1, Conv2D.output_channels self]
    \<and> elems b = replicate (nat (Conv2D.output_channels self)) 0"
proof -
  let ?ic = "Conv2D.input_channels self" and ?oc = "Conv2D.output_channels self"
  let ?fs = "Conv2D.filter_shape self"
  let ?wl = "sqrt (6 / real_of_int (?oc + ?ic))"
  let ?shp = "if Conv2D.data_format self = ''NHWC'' then ?fs @ [?oc, ?ic] else [?oc, ?ic] @ ?fs"
  let ?w = "\<lparr>shape = ?shp,
             elems = map (\<lambda>i. - ?wl + (?wl - (- ?wl)) * g i) [0..<numel ?shp],
             device = Some dev, trainable = False\<rparr>"
  let ?b = "\<lparr>shape = [1, 1, 1, ?oc], elems = replicate (numel [1, 1, 1, ?oc]) (0::real),
             device = Some dev, trainable = False\<rparr>"
  from pos have pos': "0 < ?oc + ?ic" by simp
  have shp: "list_all (\<lambda>k. 0 \<le> k) ?shp"
    using ic oc fs by simp
  have ru: "random_uniform (py_neg (PyFloat ?wl)) (PyFloat ?wl) ?shp (Some dev) g
              = Inr (?w, \<lambda>i. g (i + numel ?shp))"
    by (rule random_uniform_nonneg [OF shp])
  have z: "zeros [1, 1, 1, ?oc] (Some dev) = Inr ?b"
    using oc by (intro zeros_nonneg) simp
  have run: "Conv2D_create_variables self dev g
      = Inr (Container [(''w'', Var (variable ?w)), (''b'', Var (variable ?b))],
             \<lambda>i. g (i + numel ?shp))"
    unfolding Conv2D_create_variables_def glorot_bound [OF pos'] ebind_simps Let_def ru z
    by simp
  show ?thesis
    by (intro exI conjI, rule run) (simp_all add: variable_def numel_def)
qed


theorem Conv2D_create_variables_shapes_witness:
  "(\<exists>w b g'.
      Conv2D_create_variables
        \<lparr>dev_str = ''cpu'', v = Container [],
         Conv2D.input_channels = 3, Conv2D.output_channels = 2, Conv2D.filter_shape = [5, 4],
         Conv2D.strides = IntArg 1, Conv2D.padding = PadMode ''SAME'',
         Conv2D.data_format = ''NHWC'', Conv2D.dilations = IntArg 1\<rparr> ''cpu'' mid_samples
        = Inr (Container [(''w'', Var w), (''b'', Var b)], g')
      \<and> shape w = [5, 4, 2, 3] \<and> shape b = [1, 1, 1, 2] \<and> elems b = [0, 0])
   \<and> (\<exists>w b g'.
      Conv2D_create_variables
        \<lparr>dev_str = ''cpu'', v = Container [],
         Conv2D.input_channels = 3, Conv2D.output_channels = 2, Conv2D.filter_shape = [5, 4],
         Conv2D.strides = IntArg 1, Conv2D.padding = PadMode ''SAME'',
         Conv2D.data_format = ''NCHW'', Conv2D.dilations = IntArg 1\<rparr> ''cpu'' mid_samples
        = Inr (Container [(''w'', Var w), (''b'', Var b)], g')
      \<and> shape w = [2, 3, 5, 4] \<and> shape b = [1, 1, 1, 2] \<and> elems b = [0, 0])"
  using Conv2D_create_variables_shapes
    [of "\<lparr>dev_str = ''cpu'', v = Container [],
         Conv2D.input_channels = 3, Conv2D.output_channels = 2, Conv2D.filter_shape = [5, 4],
         Conv2D.strides = IntArg 1, Conv2D.padding = PadMode ''SAME'',
         Conv2D.data_format = ''NHWC'', Conv2D.dilations = IntArg 1\<rparr>" "''cpu''" mid_samples]
    Conv2D_create_variables_shapes
    [of "\<lparr>dev_str = ''cpu'', v = Container [],
         Conv2D.input_channels = 3, Conv2D.output_channels = 2, Conv2D.filter_shape = [5, 4],
         Conv2D.strides = IntArg 1, Conv2D.padding = PadMode ''SAME'',
         Conv2D.data_format = ''NCHW'', Conv2D.dilations = IntArg 1\<rparr>" "''cpu''" mid_samples]
  by (simp add: numeral_2_eq_2)

subsection \<open>Construction does not validate hyperparameters\<close>

lemma py_truediv_error: "py_truediv a n = Inl e \<Longrightarrow> e = ZeroDivisionError"
  by (simp add: py_truediv_def split: if_splits)

lemma zeros_error: "zeros shp dev = Inl e \<Longrightarrow> e = BackendError"
  by (simp add: zeros_def split: if_splits)

lemma random_uniform_error: "random_uniform lo hi shp dev g = Inl e \<Longrightarrow> e = BackendError"
  by (simp add: random_uniform_def split: if_splits pynum.splits)

lemma ebind_Inl: "ebind m f = Inl e \<Longrightarrow> m = Inl e \<or> (\<exists>x. m = Inr x \<and> f x = Inl e)"
  by (cases m) simp_all

lemma list_comp_rng_error:
  assumes "\<And>i g0 e. f i g0 = Inl e \<Longrightarrow> e = BackendError"
  shows "list_comp_rng f js g = Inl e \<Longrightarrow> e = BackendError"
proof (induction js arbitrary: g)
  case Nil
  then show ?case by simp
next
  case (Cons i js)
  then show ?case
    by (auto dest!: ebind_Inl dest: assms split: prod.splits)
qed

lemma glorot_pair_error:
  "ebind (py_truediv 6 n) (\<lambda>q.
       let wlim = py_pow_half q in
       ebind (random_uniform (py_neg wlim) wlim shp dev g) (\<lambda>(t, g').
         let w = variable t in
         ebind (zeros bshp dev) (\<lambda>z.
           let b = variable z in
           Inr (Container [(''w'', Var w), (''b'', Var b)], g')))) = Inl e
   \<Longrightarrow> e = ZeroDivisionError \<or> e = BackendError"
  by (auto simp: Let_def dest!: ebind_Inl dest: py_truediv_error zeros_error random_uniform_error
      split: prod.splits)

lemma Linear_create_variables_error:
  "Linear_create_variables self dev g = Inl e \<Longrightarrow> e = ZeroDivisionError \<or> e = BackendError"
  unfolding Linear_create_variables_def by (rule glorot_pair_error)

lemma Conv1D_create_variables_error:
  "Conv1D_create_variables self dev g = Inl e \<Longrightarrow> e = ZeroDivisionError \<or> e = BackendError"
  unfolding Conv1D_create_variables_def Let_def by (rule glorot_pair_error [unfolded Let_def])

lemma Conv1DTranspose_create_variables_error:
  "Conv1DTranspose_create_variables self dev g = Inl e \<Longrightarrow> e = ZeroDivisionError \<or> e = BackendError"
  unfolding Conv1DTranspose_create_variables_def Let_def by (rule glorot_pair_error [unfolded Let_def])

lemma Conv2D_create_variables_error:
  "Conv2D_create_variables self dev g = Inl e \<Longrightarrow> e = ZeroDivisionError \<or> e = BackendError"
  unfolding Conv2D_create_variables_def Let_def by (rule glorot_pair_error [unfolded Let_def])

lemma Conv2DTranspose_create_variables_error:
  "Conv2DTranspose_create_variables self dev g = Inl e \<Longrightarrow> e = ZeroDivisionError \<or> e = BackendError"
  unfolding Conv2DTranspose_create_variables_def Let_def by (rule glorot_pair_error [unfolded Let_def])

lemma layer_weight_error:
  "ebind (random_uniform lo hi shp dev g0) (\<lambda>(t, g'). Inr (Container [(''w'', Var (variable t))], g'))
     = Inl e \<Longrightarrow> e = BackendError"
  by (auto dest!: ebind_Inl dest: random_uniform_error split: prod.splits)

lemma layer_weights_error:
  "list_comp_rng
     (\<lambda>i g0. ebind (random_uniform lo hi (shpf i) dev g0)
                (\<lambda>(t, g'). Inr (Container [(''w'', Var (variable t))], g'))) js g = Inl e
   \<Longrightarrow> e = BackendError"
  by (erule list_comp_rng_error [rotated]) (rule layer_weight_error)

lemma LSTM_create_variables_error:
  assumes "LSTM_create_variables self dev g = Inl e"
  shows "e = ZeroDivisionError \<or> e = BackendError"
proof -
  note lw1 = layer_weights_error [where shpf = "\<lambda>i. [if i = 0 then LSTM.input_channels self
                  else LSTM.output_channels self, 4 * LSTM.output_channels self]"]
  note lw2 = layer_weights_error [where shpf = "\<lambda>i. [LSTM.output_channels self,
                  4 * LSTM.output_channels self]"]
  from assms show ?thesis
    unfolding LSTM_create_variables_def Let_def
    by (auto dest!: ebind_Inl dest: py_truediv_error lw1 lw2 split: prod.splits)
qed

lemma Module_init_error:
  assumes "\<And>e. create self dev g = Inl e \<Longrightarrow> e = ZeroDivisionError \<or> e = BackendError"
  shows "Module_init create self dev vopt g \<noteq> Inl InvalidConfiguration"
  using assms by (auto simp: Module_init_def dest!: ebind_Inl split: option.splits prod.splits)


text \<open>
  C8, as the code has it. No layer variant validates its hyperparameters: for all
  hyperparameters, negative channel counts included, construction never fails with
  \<open>InvalidConfiguration\<close>, and with a caller-supplied container it completes and stores
  the hyperparameters as given.
\<close>

theorem construction_not_validated:
  "Linear_init ic oc dev vopt g \<noteq> Inl InvalidConfiguration
   \<and> Conv1D_init ic oc fs st pad fmt dil dev vopt g \<noteq> Inl InvalidConfiguration
   \<and> Conv1DTranspose_init ic oc fs st pad osh fmt dil dev vopt g \<noteq> Inl InvalidConfiguration
   \<and> Conv2D_init ic oc fsh st pad fmt dil dev vopt g \<noteq> Inl InvalidConfiguration
   \<and> Conv2DTranspose_init ic oc fsh st pad osh fmt dil dev vopt g \<noteq> Inl InvalidConfiguration
   \<and> LSTM_init ic oc n rseq rst dev vopt g \<noteq> Inl InvalidConfiguration
   \<and> Linear_init ic oc dev (Some c) g
       = Inr (\<lparr>dev_str = dev, v = c,
               Linear.input_channels = ic, Linear.output_channels = oc\<rparr>, g)
   \<and> Conv1D_init ic oc fs st pad fmt dil dev (Some c) g
       = Inr (\<lparr>dev_str = dev, v = c,
               Conv1D.input_channels = ic, Conv1D.output_channels = oc,
               Conv1D.filter_size = fs, Conv1D.strides = st, Conv1D.padding = pad,
               Conv1D.data_format = fmt, Conv1D.dilations = dil\<rparr>, g)
   \<and> Conv1DTranspose_init ic oc fs st pad osh fmt dil dev (Some c) g
       = Inr (\<lparr>dev_str = dev, v = c,
               Conv1DTranspose.input_channels = ic, Conv1DTranspose.output_channels = oc,
               Conv1DTranspose.filter_size = fs, Conv1DTranspose.strides = st,
               Conv1DTranspose.padding = pad, Conv1DTranspose.output_shape = osh,
               Conv1DTranspose.data_format = fmt, Conv1DTranspose.dilations = dil\<rparr>, g)
   \<and> Conv2D_init ic oc fsh st pad fmt dil dev (Some c) g
       = Inr (\<lparr>dev_str = dev, v = c,
               Conv2D.input_channels = ic, Conv2D.output_channels = oc,
               Conv2D.filter_shape = fsh, Conv2D.strides = st, Conv2D.padding = pad,
               Conv2D.data_format = fmt, Conv2D.dilations = dil\<rparr>, g)
   \<and> Conv2DTranspose_init ic oc fsh st pad osh fmt dil dev (Some c) g
       = Inr (\<lparr>dev_str = dev, v = c,
               Conv2DTranspose.input_channels = ic, Conv2DTranspose.output_channels = oc,
               Conv2DTranspose.filter_shape = fsh, Conv2DTranspose.strides = st,
               Conv2DTranspose.padding = pad, Conv2DTranspose.output_shape = osh,
               Conv2DTranspose.data_format = fmt, Conv2DTranspose.dilations = dil\<rparr>, g)
   \<and> LSTM_init ic oc n rseq rst dev (Some c) g
       = Inr (\<lparr>dev_str = dev, v = c,
               LSTM.input_channels = ic, LSTM.output_channels = oc, num_layers = n,
               return_sequence = rseq, return_state = rst\<rparr>, g)"
proof (intro conjI)
  show "Linear_init ic oc dev vopt g \<noteq> Inl InvalidConfiguration"
    unfolding Linear_init_def
    by (rule Module_init_error) (rule Linear_create_variables_error)
  show "Conv1D_init ic oc fs st pad fmt dil dev vopt g \<noteq> Inl InvalidConfiguration"
    unfolding Conv1D_init_def
    by (rule Module_init_error) (rule Conv1D_create_variables_error)
  show "Conv1DTranspose_init ic oc fs st pad osh fmt dil dev vopt g \<noteq> Inl InvalidConfiguration"
    unfolding Conv1DTranspose_init_def
    by (rule Module_init_error) (rule Conv1DTranspose_create_variables_error)
  show "Conv2D_init ic oc fsh st pad fmt dil dev vopt g \<noteq> Inl InvalidConfiguration"
    unfolding Conv2D_init_def
    by (rule Module_init_error) (rule Conv2D_create_variables_error)
  show "Conv2DTranspose_init ic oc fsh st pad osh fmt dil dev vopt g \<noteq> Inl InvalidConfiguration"
    unfolding Conv2DTranspose_init_def
    by (rule Module_init_error) (rule Conv2DTranspose_create_variables_error)
  show "LSTM_init ic oc n rseq rst dev vopt g \<noteq> Inl InvalidConfiguration"
    unfolding LSTM_init_def
    by (rule Module_init_error) (rule LSTM_create_variables_error)
qed (simp_all add: Linear_init_def Conv1D_init_def Conv1DTranspose_init_def Conv2D_init_def
      Conv2DTranspose_init_def LSTM_init_def Module_init_def)

text \<open>
  C8 as stated fails: \<open>Linear\<close> with input channel count \<open>-1\<close> and a supplied
  container is constructed and keeps the count; with no container and output channel
  count \<open>1\<close> the division \<^verbatim>\<open>6 / (1 + -1)\<close> raises \<open>ZeroDivisionError\<close>, which is not
  \<open>InvalidConfiguration\<close>.
\<close>

theorem Linear_init_negative_channels:
  "Linear_init (- 1) 3 ''cpu'' (Some (Container [])) mid_samples
     = Inr (\<lparr>dev_str = ''cpu'', v = Container [],
             Linear.input_channels = - 1, Linear.output_channels = 3\<rparr>, mid_samples)
   \<and> Linear_init (- 1) 1 ''cpu'' None mid_samples = Inl ZeroDivisionError"
  by (simp add: Linear_init_def Module_init_def Linear_create_variables_def py_truediv_def)

subsection \<open>Linear: forward pass\<close>

lemma concat_rows_length:
  assumes "\<And>i. i < m \<Longrightarrow> length (f i) = n"
  shows "length (concat (map f [0..<m])) = m * n"
  using assms by (induction m) simp_all

lemma concat_rows_nth:
  assumes "\<And>i. i < m \<Longrightarrow> length (f i) = n" and "r < m" and "k < n"
  shows "concat (map f [0..<m]) ! (r * n + k) = f r ! k"
  using assms
proof (induction m)
  case 0
  then show ?case by simp
next
  case (Suc m)
  have len: "length (concat (map f [0..<m])) = m * n"
    using Suc.prems(1) by (intro concat_rows_length) simp
  show ?case
  proof (cases "r < m")
    case True
    have "r * n + k < r * n + n" using Suc.prems(3) by simp
    also have "\<dots> = Suc r * n" by simp
    also have "\<dots> \<le> m * n" using True by (intro mult_le_mono1) simp
    finally have "r * n + k < m * n" .
    moreover have "concat (map f [0..<m]) ! (r * n + k) = f r ! k"
      using Suc.prems(1,3) True by (intro Suc.IH) simp_all
    ultimately show ?thesis
      using len by (simp add: nth_append)
  next
    case False
    with Suc.prems(2) have "r = m" by simp
    then show ?thesis using len by (simp add: nth_append)
  qed
qed

lemma dot_row:
  assumes "(r + 1) * n \<le> length xs" and "(k + 1) * n \<le> length ws"
  shows "dot (row n r xs) (row n k ws) = (\<Sum>j<n. xs ! (r * n + j) * ws ! (k * n + j))"
proof -
  have lx: "length (row n r xs) = n" and lw: "length (row n k ws) = n"
    using assms by (simp_all add: row_def)
  have nx: "row n r xs ! j = xs ! (r * n + j)" if "j < n" for j
    using that assms(1) by (simp add: row_def)
  have nw: "row n k ws ! j = ws ! (k * n + j)" if "j < n" for j
    using that assms(2) by (simp add: row_def)
  have "dot (row n r xs) (row n k ws)
      = (\<Sum>j = 0..<n. map2 (*) (row n r xs) (row n k ws) ! j)"
    unfolding dot_def by (simp add: sum_list_sum_nth lx lw)
  also have "\<dots> = (\<Sum>j = 0..<n. xs ! (r * n + j) * ws ! (k * n + j))"
    by (rule sum.cong) (simp_all add: lx lw nx nw)
  finally show ?thesis by (simp add: lessThan_atLeast0)
qed

text \<open>
  C7. Let the container of a \<open>Linear\<close> layer hold a weight of shape
  \<open>[output_channels, input_channels]\<close> under \<open>w\<close> and a bias of shape
  \<open>[output_channels]\<close> under \<open>b\<close>. On an input of shape \<open>batch @ [input_channels]\<close>
  (one batch dimension \<open>[B]\<close> or any number of them) the forward pass returns a tensor
  of shape \<open>batch @ [output_channels]\<close>, the batch dimensions unchanged, whose entry
  \<open>k\<close> of row \<open>r\<close> is the inner product of row \<open>r\<close> of the input with row \<open>k\<close> of
  the weight plus entry \<open>k\<close> of the bias: \<open>input \<cdot> weight\<^sup>T + bias\<close>.
\<close>

theorem Linear_forward_dense:
  assumes w: "get (v self) ''w'' = Inr (Var w)"
    and b: "get (v self) ''b'' = Inr (Var b)"
    and sw: "shape w = [Linear.output_channels self, Linear.input_channels self]"
    and sb: "shape b = [Linear.output_channels self]"
    and sx: "shape x = batch @ [Linear.input_channels self]"
    and lw: "length (elems w) = numel (shape w)"
    and lx: "length (elems x) = numel (shape x)"
    and nonneg: "0 \<le> Linear.input_channels self" "0 \<le> Linear.output_channels self"
       "list_all (\<lambda>k. 0 \<le> k) batch"
  shows "\<exists>y. Linear_forward self x = Inr y
    \<and> shape y = batch @ [Linear.output_channels self]
    \<and> length (elems y) = numel (shape y)
    \<and> (\<forall>r < numel batch. \<forall>k < nat (Linear.output_channels self).
          elems y ! (r * nat (Linear.output_channels self) + k)
          = (\<Sum>j < nat (Linear.input_channels self).
                elems x ! (r * nat (Linear.input_channels self) + j)
                * elems w ! (k * nat (Linear.input_channels self) + j))
            + elems b ! k)"
proof -
  let ?ic = "Linear.input_channels self" and ?oc = "Linear.output_channels self"
  let ?f = "\<lambda>r. map (\<lambda>k. dot (row (nat ?ic) r (elems x)) (row (nat ?ic) k (elems w))
                          + elems b ! k) [0..<nat ?oc]"
  let ?y = "\<lparr>shape = batch @ [?oc], elems = concat (map ?f [0..<numel batch]),
             device = device x, trainable = False\<rparr>"
  have run: "Linear_forward self x = Inr ?y"
    by (simp add: Linear_forward_def w b linear_def sw sb sx)
  have pb: "0 \<le> prod_list batch"
    using nonneg(3) by (induction batch) simp_all
  have nx: "length (elems x) = numel batch * nat ?ic"
    using lx pb nonneg(1) by (simp add: sx numel_def nat_mult_distrib)
  have nw: "length (elems w) = nat ?oc * nat ?ic"
    using lw nonneg by (simp add: sw numel_def nat_mult_distrib)
  have ny: "numel (batch @ [?oc]) = numel batch * nat ?oc"
    using pb nonneg(2) by (simp add: numel_def nat_mult_distrib)
  have lenf: "length (?f i) = nat ?oc" for i by simp
  have len: "length (concat (map ?f [0..<numel batch])) = numel batch * nat ?oc"
    by (rule concat_rows_length) simp
  have entry: "concat (map ?f [0..<numel batch]) ! (r * nat ?oc + k)
      = (\<Sum>j < nat ?ic. elems x ! (r * nat ?ic + j) * elems w ! (k * nat ?ic + j)) + elems b ! k"
    if r: "r < numel batch" and k: "k < nat ?oc" for r k
  proof -
    have "(r + 1) * nat ?ic \<le> numel batch * nat ?ic"
      using r by (intro mult_le_mono1) simp
    then have bx: "(r + 1) * nat ?ic \<le> length (elems x)" by (simp add: nx)
    have "(k + 1) * nat ?ic \<le> nat ?oc * nat ?ic"
      using k by (intro mult_le_mono1) simp
    then have bw: "(k + 1) * nat ?ic \<le> length (elems w)" by (simp add: nw)
    have "concat (map ?f [0..<numel batch]) ! (r * nat ?oc + k) = ?f r ! k"
      by (rule concat_rows_nth [OF _ r k]) simp
    also have "\<dots> = dot (row (nat ?ic) r (elems x)) (row (nat ?ic) k (elems w)) + elems b ! k"
      using k by simp
    finally show ?thesis by (simp add: dot_row [OF bx bw])
  qed
  show ?thesis
    by (intro exI [of _ ?y] conjI allI impI, rule run) (simp_all add: len ny entry)
qed


theorem Linear_forward_dense_witness:
  "\<exists>y. Linear_forward
      \<lparr>dev_str = ''cpu'',
       v = Container
             [(''w'', Var \<lparr>shape = [1, 2], elems = [1, 2], device = Some ''cpu'', trainable = True\<rparr>),
              (''b'', Var \<lparr>shape = [1], elems = [10], device = Some ''cpu'', trainable = True\<rparr>)],
       Linear.input_channels = 2, Linear.output_channels = 1\<rparr>
      \<lparr>shape = [2, 2], elems = [1, 2, 3, 4], device = None, trainable = False\<rparr> = Inr y
    \<and> shape y = [2, 1] \<and> elems y = [15, 21]"
  using Linear_forward_dense
    [of "\<lparr>dev_str = ''cpu'',
       v = Container
             [(''w'', Var \<lparr>shape = [1, 2], elems = [1, 2], device = Some ''cpu'', trainable = True\<rparr>),
              (''b'', Var \<lparr>shape = [1], elems = [10], device = Some ''cpu'', trainable = True\<rparr>)],
       Linear.input_channels = 2, Linear.output_channels = 1\<rparr>"
        "\<lparr>shape = [1, 2], elems = [1, 2], device = Some ''cpu'', trainable = True\<rparr>"
        "\<lparr>shape = [1], elems = [10], device = Some ''cpu'', trainable = True\<rparr>"
        "\<lparr>shape = [2, 2], elems = [1, 2, 3, 4], device = None, trainable = False\<rparr>"
        "[2]"]
  by (simp add: Linear_forward_def linear_def dot_def row_def numel_def upt_rec)

subsection \<open>LSTM: created variables\<close>

lemma list_comp_const: "list_comp (\<lambda>i. Inr x) js = Inr (replicate (length js) x)"
  by (induction js) simp_all

lemma list_comp_Inr:
  "list_comp f js = Inr xs \<Longrightarrow> length xs = length js \<and> (\<forall>k<length js. f (js ! k) = Inr (xs ! k))"
proof (induction js arbitrary: xs)
  case Nil
  then show ?case by simp
next
  case (Cons i js)
  from Cons.prems obtain y ys where y: "f i = Inr y" and ys: "list_comp f js = Inr ys"
    and xs: "xs = y # ys"
    by (cases "f i"; cases "list_comp f js") auto
  from Cons.IH [OF ys] y xs show ?case
    by (auto simp: nth_Cons split: nat.splits)
qed

lemma digit_value:
  assumes "n < 10"
  shows "of_char (''0123456789'' ! n) - 48 = n"
proof -
  from assms have "n \<in> {0, 1, 2, 3, 4, 5, 6, 7, 8, 9}" by auto
  then show ?thesis by auto
qed

lemma str_value: "foldl (\<lambda>a c. 10 * a + (of_char c - 48)) 0 (str n) = n"
proof (induction n rule: str.induct)
  case (1 n)
  show ?case
  proof (cases "n < 10")
    case True
    have s: "str n = [''0123456789'' ! n]"
      using True by (subst str.simps) (simp only: if_True)
    show ?thesis
      unfolding s using digit_value [OF True] by (simp only: foldl.simps mult_zero_right add_0)
  next
    case False
    have s: "str n = str (n div 10) @ [''0123456789'' ! (n mod 10)]"
      using False by (subst str.simps) (simp only: if_False)
    have d: "of_char (''0123456789'' ! (n mod 10)) - 48 = n mod 10"
      by (rule digit_value) simp
    have "foldl (\<lambda>a c. 10 * a + (of_char c - 48)) 0 (str n) = 10 * (n div 10) + n mod 10"
      unfolding s foldl_append using 1 [OF False] d by (simp only: foldl.simps)
    then show ?thesis by simp
  qed
qed

lemma str_inject:
  assumes "str m = str n"
  shows "m = n"
proof -
  have "foldl (\<lambda>a c. 10 * a + (of_char c - 48)) (0::nat) (str m)
      = foldl (\<lambda>a c. 10 * a + (of_char c - 48)) 0 (str n)"
    by (simp only: assms)
  then show ?thesis by (simp only: str_value)
qed

lemma layer_keys_distinct: "distinct (map (\<lambda>i. ''layer_'' @ str i) [0..<n])"
  by (auto simp: distinct_map intro!: inj_onI dest: str_inject)

lemma update_fresh:
  "k \<notin> fst ` set d \<Longrightarrow> AList.update k x d = d @ [(k, x)]"
  by (induction d) auto

lemma py_dict_foldl:
  "distinct (map fst (d @ kvs)) \<Longrightarrow>
   foldl (\<lambda>d (k, x). AList.update k x d) d kvs = d @ kvs"
proof (induction kvs arbitrary: d)
  case Nil
  then show ?case by simp
next
  case (Cons kx kvs)
  obtain k x where kx: "kx = (k, x)" by (cases kx)
  from Cons.prems have fresh: "k \<notin> fst ` set d" by (auto simp: kx)
  from Cons.prems have "distinct (map fst ((d @ [(k, x)]) @ kvs))" by (simp add: kx)
  from Cons.IH [OF this] show ?case by (simp add: kx update_fresh [OF fresh])
qed

lemma py_dict_distinct: "distinct (map fst kvs) \<Longrightarrow> py_dict kvs = kvs"
  unfolding py_dict_def using py_dict_foldl [of "[]" kvs] by simp

lemma py_dict_layers:
  assumes "length ts = n"
  shows "py_dict (zip (map (\<lambda>i. ''layer_'' @ str i) [0..<n]) (map (\<lambda>t. Container [(''w'', Var t)]) ts))
         = layer_entries ts"
proof -
  let ?ks = "map (\<lambda>i. ''layer_'' @ str i) [0..<n]"
  let ?cs = "map (\<lambda>t. Container [(''w'', Var t)]) ts"
  have "map fst (zip ?ks ?cs) = ?ks" using assms by (simp add: map_fst_zip del: map_map)
  then have "distinct (map fst (zip ?ks ?cs))" using layer_keys_distinct [of n] by simp
  then have "py_dict (zip ?ks ?cs) = zip ?ks ?cs" by (rule py_dict_distinct)
  also have "\<dots> = layer_entries ts"
    using assms by (auto simp: layer_entries_def intro!: nth_equalityI)
  finally show ?thesis .
qed

lemma unit_samples_shift: "unit_samples g \<Longrightarrow> unit_samples (\<lambda>i. g (i + n))"
  by (simp add: unit_samples_def)

lemma layer_weights_created:
  assumes wl: "0 \<le> wl"
  shows "unit_samples g \<Longrightarrow> \<forall>i\<in>set js. list_all (\<lambda>k. 0 \<le> k) (shpf i) \<Longrightarrow>
    \<exists>ts g'. list_comp_rng
        (\<lambda>i g0. ebind (random_uniform (py_neg (PyFloat wl)) (PyFloat wl) (shpf i) dev g0)
                   (\<lambda>(t, g'). Inr (Container [(''w'', Var (variable t))], g'))) js g
        = Inr (map (\<lambda>t. Container [(''w'', Var t)]) ts, g')
      \<and> length ts = length js \<and> unit_samples g'
      \<and> (\<forall>k<length js. shape (ts ! k) = shpf (js ! k)
            \<and> length (elems (ts ! k)) = numel (shpf (js ! k))
            \<and> list_all (\<lambda>x. - wl \<le> x \<and> x \<le> wl) (elems (ts ! k))
            \<and> device (ts ! k) = dev \<and> trainable (ts ! k))"
proof (induction js arbitrary: g)
  case Nil
  then show ?case by simp
next
  case (Cons i js)
  let ?f = "\<lambda>i g0. ebind (random_uniform (py_neg (PyFloat wl)) (PyFloat wl) (shpf i) dev g0)
                   (\<lambda>(t, g'). Inr (Container [(''w'', Var (variable t))], g'))"
  let ?t = "\<lparr>shape = shpf i, elems = map (\<lambda>j. - wl + (wl - (- wl)) * g j) [0..<numel (shpf i)],
             device = dev, trainable = False\<rparr>"
  let ?g1 = "\<lambda>j. g (j + numel (shpf i))"
  from Cons.prems(2) have shp: "list_all (\<lambda>k. 0 \<le> k) (shpf i)" by simp
  have head: "?f i g = Inr (Container [(''w'', Var (variable ?t))], ?g1)"
    by (simp only: random_uniform_nonneg [OF shp] ebind_simps prod.case)
  have g1: "unit_samples ?g1" by (rule unit_samples_shift [OF Cons.prems(1)])
  from Cons.prems(2) have "\<forall>i\<in>set js. list_all (\<lambda>k. 0 \<le> k) (shpf i)" by simp
  from Cons.IH [OF g1 this] obtain ts g' where
    rest: "list_comp_rng ?f js ?g1 = Inr (map (\<lambda>t. Container [(''w'', Var t)]) ts, g')"
    and len: "length ts = length js" and g': "unit_samples g'"
    and each: "\<forall>k<length js. shape (ts ! k) = shpf (js ! k)
            \<and> length (elems (ts ! k)) = numel (shpf (js ! k))
            \<and> list_all (\<lambda>x. - wl \<le> x \<and> x \<le> wl) (elems (ts ! k))
            \<and> device (ts ! k) = dev \<and> trainable (ts ! k)"
    by blast
  have bounds: "list_all (\<lambda>x. - wl \<le> x \<and> x \<le> wl) (elems (variable ?t))"
    unfolding list_all_iff using unit_sample_between [OF Cons.prems(1) wl]
    by (auto simp: variable_def)
  have run: "list_comp_rng ?f (i # js) g
      = Inr (map (\<lambda>t. Container [(''w'', Var t)]) (variable ?t # ts), g')"
    by (simp only: list_comp_rng.simps head rest ebind_simps prod.case list.map)
  have all: "\<forall>k<length (i # js). shape ((variable ?t # ts) ! k) = shpf ((i # js) ! k)
            \<and> length (elems ((variable ?t # ts) ! k)) = numel (shpf ((i # js) ! k))
            \<and> list_all (\<lambda>x. - wl \<le> x \<and> x \<le> wl) (elems ((variable ?t # ts) ! k))
            \<and> device ((variable ?t # ts) ! k) = dev \<and> trainable ((variable ?t # ts) ! k)"
  proof (intro allI impI)
    fix k assume "k < length (i # js)"
    then show "shape ((variable ?t # ts) ! k) = shpf ((i # js) ! k)
            \<and> length (elems ((variable ?t # ts) ! k)) = numel (shpf ((i # js) ! k))
            \<and> list_all (\<lambda>x. - wl \<le> x \<and> x \<le> wl) (elems ((variable ?t # ts) ! k))
            \<and> device ((variable ?t # ts) ! k) = dev \<and> trainable ((variable ?t # ts) ! k)"
      using each bounds by (cases k) (simp_all add: variable_def)
  qed
  show ?case
  proof (intro exI conjI)
    show "list_comp_rng ?f (i # js) g
      = Inr (map (\<lambda>t. Container [(''w'', Var t)]) (variable ?t # ts), g')"
      by (rule run)
    show "length (variable ?t # ts) = length (i # js)"
      by (simp add: len)
    show "unit_samples g'" by (rule g')
  qed (rule all)
qed


lemma LSTM_create_variables_result:
  assumes ic: "0 \<le> LSTM.input_channels self"
    and oc: "0 < LSTM.output_channels self"
    and g: "unit_samples g"
  shows "\<exists>ws rs g'.
      LSTM_create_variables self dev g
        = Inr (Container [(''input'', Container (layer_entries ws)),
                          (''recurrent'', Container (layer_entries rs))], g')
    \<and> length ws = nat (num_layers self) \<and> length rs = nat (num_layers self)
    \<and> unit_samples g'
    \<and> (\<forall>i<nat (num_layers self).
          shape (ws ! i) = [if i = 0 then LSTM.input_channels self else LSTM.output_channels self,
                            4 * LSTM.output_channels self]
        \<and> length (elems (ws ! i)) = numel (shape (ws ! i))
        \<and> list_all (\<lambda>x. - sqrt (6 / real_of_int (LSTM.output_channels self + LSTM.input_channels self)) \<le> x
                   \<and> x \<le> sqrt (6 / real_of_int (LSTM.output_channels self + LSTM.input_channels self)))
             (elems (ws ! i))
        \<and> device (ws ! i) = Some dev \<and> trainable (ws ! i))
    \<and> (\<forall>i<nat (num_layers self).
          shape (rs ! i) = [LSTM.output_channels self, 4 * LSTM.output_channels self]
        \<and> length (elems (rs ! i)) = numel (shape (rs ! i))
        \<and> list_all (\<lambda>x. - sqrt (6 / real_of_int (LSTM.output_channels self + LSTM.output_channels self)) \<le> x
                   \<and> x \<le> sqrt (6 / real_of_int (LSTM.output_channels self + LSTM.output_channels self)))
             (elems (rs ! i))
        \<and> device (rs ! i) = Some dev \<and> trainable (rs ! i))"
proof -
  let ?ic = "LSTM.input_channels self" and ?oc = "LSTM.output_channels self"
  let ?n = "nat (num_layers self)"
  let ?wl1 = "sqrt (6 / real_of_int (?oc + ?ic))" and ?wl2 = "sqrt (6 / real_of_int (?oc + ?oc))"
  let ?shp1 = "\<lambda>i::nat. [if i = 0 then ?ic else ?oc, 4 * ?oc]" and ?shp2 = "\<lambda>i::nat. [?oc, 4 * ?oc]"
  let ?keys = "map (\<lambda>i. ''layer_'' @ str i) (py_range (num_layers self))"
  from ic oc have pos1: "0 < ?oc + ?ic" and pos2: "0 < ?oc + ?oc" by simp_all
  have wl1: "0 \<le> ?wl1" and wl2: "0 \<le> ?wl2" using pos1 pos2 by simp_all
  have shp1: "\<forall>i\<in>set (py_range (num_layers self)). list_all (\<lambda>k. 0 \<le> k) (?shp1 i)"
    using ic oc by simp
  have shp2: "\<forall>i\<in>set (py_range (num_layers self)). list_all (\<lambda>k. 0 \<le> k) (?shp2 i)"
    using oc by simp
  have len: "length (py_range (num_layers self)) = ?n"
    and nth: "\<And>k. k < ?n \<Longrightarrow> py_range (num_layers self) ! k = k"
    by (simp_all add: py_range_def)
  from layer_weights_created [OF wl1 g shp1, of "Some dev"] obtain ws g1 where
    c1: "list_comp_rng
        (\<lambda>i g0. ebind (random_uniform (py_neg (PyFloat ?wl1)) (PyFloat ?wl1) (?shp1 i) (Some dev) g0)
                   (\<lambda>(t, g'). Inr (Container [(''w'', Var (variable t))], g')))
        (py_range (num_layers self)) g
        = Inr (map (\<lambda>t. Container [(''w'', Var t)]) ws, g1)"
    and lws: "length ws = ?n" and g1: "unit_samples g1"
    and ews: "\<forall>k<?n. shape (ws ! k) = ?shp1 k
            \<and> length (elems (ws ! k)) = numel (?shp1 k)
            \<and> list_all (\<lambda>x. - ?wl1 \<le> x \<and> x \<le> ?wl1) (elems (ws ! k))
            \<and> device (ws ! k) = Some dev \<and> trainable (ws ! k)"
    unfolding len by (auto simp: nth)
  from layer_weights_created [OF wl2 g1 shp2, of "Some dev"] obtain rs g2 where
    c2: "list_comp_rng
        (\<lambda>i g0. ebind (random_uniform (py_neg (PyFloat ?wl2)) (PyFloat ?wl2) (?shp2 i) (Some dev) g0)
                   (\<lambda>(t, g'). Inr (Container [(''w'', Var (variable t))], g')))
        (py_range (num_layers self)) g1
        = Inr (map (\<lambda>t. Container [(''w'', Var t)]) rs, g2)"
    and lrs: "length rs = ?n" and g2: "unit_samples g2"
    and ers: "\<forall>k<?n. shape (rs ! k) = ?shp2 k
            \<and> length (elems (rs ! k)) = numel (?shp2 k)
            \<and> list_all (\<lambda>x. - ?wl2 \<le> x \<and> x \<le> ?wl2) (elems (rs ! k))
            \<and> device (rs ! k) = Some dev \<and> trainable (rs ! k)"
    unfolding len by (auto simp: nth)
  have d1: "py_dict (zip ?keys (map (\<lambda>t. Container [(''w'', Var t)]) ws)) = layer_entries ws"
    unfolding py_range_def by (rule py_dict_layers [OF lws])
  have d2: "py_dict (zip ?keys (map (\<lambda>t. Container [(''w'', Var t)]) rs)) = layer_entries rs"
    unfolding py_range_def by (rule py_dict_layers [OF lrs])
  have run: "LSTM_create_variables self dev g
        = Inr (Container [(''input'', Container (layer_entries ws)),
                          (''recurrent'', Container (layer_entries rs))], g2)"
    unfolding LSTM_create_variables_def
    by (simp only: glorot_bound [OF pos1] glorot_bound [OF pos2] ebind_simps Let_def
          c1 c2 prod.case d1 d2)
  show ?thesis
  proof (intro exI conjI)
    show "LSTM_create_variables self dev g
        = Inr (Container [(''input'', Container (layer_entries ws)),
                          (''recurrent'', Container (layer_entries rs))], g2)"
      by (rule run)
  qed (use lws lrs g2 ews ers in simp_all)
qed


lemma tensors_of_layer_entries: "tensors_of (Container (layer_entries ts)) = ts"
proof -
  have "tensors_of (Container (layer_entries ts)) = concat (map (\<lambda>i. [ts ! i]) [0..<length ts])"
    by (simp add: layer_entries_def comp_def)
  also have "\<dots> = map (\<lambda>i. ts ! i) [0..<length ts]"
    by (simp add: concat_map_singleton)
  finally show ?thesis by (simp add: map_nth)
qed

lemma get_layer_entry:
  assumes "i < length ts"
  shows "get (Container (layer_entries ts)) (''layer_'' @ str i)
         = Inr (Container [(''w'', Var (ts ! i))])"
proof -
  have keys: "map fst (layer_entries ts) = map (\<lambda>i. ''layer_'' @ str i) [0..<length ts]"
    by (simp add: layer_entries_def comp_def)
  have "distinct (map fst (layer_entries ts))"
    unfolding keys by (rule layer_keys_distinct)
  moreover have "(''layer_'' @ str i, Container [(''w'', Var (ts ! i))]) \<in> set (layer_entries ts)"
    using assms by (auto simp: layer_entries_def)
  ultimately have "map_of (layer_entries ts) (''layer_'' @ str i)
      = Some (Container [(''w'', Var (ts ! i))])"
    by (simp only: map_of_eq_Some_iff)
  then show ?thesis by simp
qed

lemma mid_samples_unit: "unit_samples mid_samples"
  by (simp add: unit_samples_def mid_samples_def)

text \<open>
  C5. For an input channel count that is not negative, a positive output channel count
  and a stream of unit samples, the variables that \<open>LSTM\<close> creates are the container
  with the two entries \<open>input\<close> and \<open>recurrent\<close>, each holding one entry
  \<open>layer_i\<close> per layer with the single variable \<open>w\<close>. The input weight of layer \<open>i\<close>
  has shape \<open>[layer_input_size, 4 * output_channels]\<close>, where \<open>layer_input_size\<close> is
  \<open>input_channels\<close> for layer \<open>0\<close> and \<open>output_channels\<close> after it; it has one element
  per entry of that shape, each within the bound of \<open>input_channels + output_channels\<close>.
  The recurrent weight has shape \<open>[output_channels, 4 * output_channels]\<close>, one element
  per entry, each within the bound of \<open>output_channels + output_channels\<close>. Every weight
  is marked trainable. These weights are all the tensors of the container: there is no
  bias.
\<close>

theorem LSTM_create_variables_layers:
  assumes ic: "0 \<le> LSTM.input_channels self"
    and oc: "0 < LSTM.output_channels self"
    and g: "unit_samples g"
  shows "\<exists>ws rs g'.
      LSTM_create_variables self dev g
        = Inr (Container [(''input'', Container (layer_entries ws)),
                          (''recurrent'', Container (layer_entries rs))], g')
    \<and> length ws = nat (num_layers self) \<and> length rs = nat (num_layers self)
    \<and> tensors_of (Container [(''input'', Container (layer_entries ws)),
                              (''recurrent'', Container (layer_entries rs))]) = ws @ rs
    \<and> (\<forall>i<nat (num_layers self).
          get (Container (layer_entries ws)) (''layer_'' @ str i)
            = Inr (Container [(''w'', Var (ws ! i))])
        \<and> shape (ws ! i) = [if i = 0 then LSTM.input_channels self else LSTM.output_channels self,
                            4 * LSTM.output_channels self]
        \<and> length (elems (ws ! i))
            = nat ((if i = 0 then LSTM.input_channels self else LSTM.output_channels self)
                   * (4 * LSTM.output_channels self))
        \<and> list_all (\<lambda>x. - sqrt (6 / real_of_int (LSTM.input_channels self + LSTM.output_channels self)) \<le> x
                   \<and> x \<le> sqrt (6 / real_of_int (LSTM.input_channels self + LSTM.output_channels self)))
             (elems (ws ! i))
        \<and> trainable (ws ! i)
        \<and> get (Container (layer_entries rs)) (''layer_'' @ str i)
            = Inr (Container [(''w'', Var (rs ! i))])
        \<and> shape (rs ! i) = [LSTM.output_channels self, 4 * LSTM.output_channels self]
        \<and> length (elems (rs ! i))
            = nat (LSTM.output_channels self * (4 * LSTM.output_channels self))
        \<and> list_all (\<lambda>x. - sqrt (6 / real_of_int (LSTM.output_channels self + LSTM.output_channels self)) \<le> x
                   \<and> x \<le> sqrt (6 / real_of_int (LSTM.output_channels self + LSTM.output_channels self)))
             (elems (rs ! i))
        \<and> trainable (rs ! i))"
proof -
  have comm: "LSTM.input_channels self + LSTM.output_channels self
      = LSTM.output_channels self + LSTM.input_channels self" by simp
  from LSTM_create_variables_result [OF ic oc g, of dev] obtain ws rs g' where
    run: "LSTM_create_variables self dev g
        = Inr (Container [(''input'', Container (layer_entries ws)),
                          (''recurrent'', Container (layer_entries rs))], g')"
    and lws: "length ws = nat (num_layers self)" and lrs: "length rs = nat (num_layers self)"
    and ews: "\<forall>i<nat (num_layers self).
          shape (ws ! i) = [if i = 0 then LSTM.input_channels self else LSTM.output_channels self,
                            4 * LSTM.output_channels self]
        \<and> length (elems (ws ! i)) = numel (shape (ws ! i))
        \<and> list_all (\<lambda>x. - sqrt (6 / real_of_int (LSTM.output_channels self + LSTM.input_channels self)) \<le> x
                   \<and> x \<le> sqrt (6 / real_of_int (LSTM.output_channels self + LSTM.input_channels self)))
             (elems (ws ! i))
        \<and> device (ws ! i) = Some dev \<and> trainable (ws ! i)"
    and ers: "\<forall>i<nat (num_layers self).
          shape (rs ! i) = [LSTM.output_channels self, 4 * LSTM.output_channels self]
        \<and> length (elems (rs ! i)) = numel (shape (rs ! i))
        \<and> list_all (\<lambda>x. - sqrt (6 / real_of_int (LSTM.output_channels self + LSTM.output_channels self)) \<le> x
                   \<and> x \<le> sqrt (6 / real_of_int (LSTM.output_channels self + LSTM.output_channels self)))
             (elems (rs ! i))
        \<and> device (rs ! i) = Some dev \<and> trainable (rs ! i)"
    by blast
  have flat: "tensors_of (Container [(''input'', Container (layer_entries ws)),
                              (''recurrent'', Container (layer_entries rs))]) = ws @ rs"
    using tensors_of_layer_entries [of ws] tensors_of_layer_entries [of rs] by simp
  have cw: "length (elems (ws ! i))
            = nat ((if i = 0 then LSTM.input_channels self else LSTM.output_channels self)
                   * (4 * LSTM.output_channels self))"
    if "i < nat (num_layers self)" for i
  proof -
    from ews that have "length (elems (ws ! i))
        = numel [if i = 0 then LSTM.input_channels self else LSTM.output_channels self,
                 4 * LSTM.output_channels self]"
      by simp
    then show ?thesis by (simp add: numel_def)
  qed
  have cr: "length (elems (rs ! i))
            = nat (LSTM.output_channels self * (4 * LSTM.output_channels self))"
    if "i < nat (num_layers self)" for i
  proof -
    from ers that have "length (elems (rs ! i))
        = numel [LSTM.output_channels self, 4 * LSTM.output_channels self]"
      by simp
    then show ?thesis by (simp add: numel_def)
  qed
  show ?thesis
    unfolding comm
  proof (intro exI conjI allI impI)
    show "LSTM_create_variables self dev g
        = Inr (Container [(''input'', Container (layer_entries ws)),
                          (''recurrent'', Container (layer_entries rs))], g')"
      by (rule run)
  qed (use lws lrs ews ers flat cw cr in \<open>simp_all only: get_layer_entry\<close>)
qed

theorem LSTM_create_variables_layers_witness:
  "\<exists>ws rs g'.
      LSTM_create_variables
        \<lparr>dev_str = ''cpu'', v = Container [],
         LSTM.input_channels = 2, LSTM.output_channels = 1, num_layers = 2,
         return_sequence = True, return_state = True\<rparr> ''cpu'' mid_samples
        = Inr (Container [(''input'', Container (layer_entries ws)),
                          (''recurrent'', Container (layer_entries rs))], g')
    \<and> length ws = 2 \<and> length rs = 2
    \<and> shape (ws ! 0) = [2, 4] \<and> shape (ws ! 1) = [1, 4]
    \<and> shape (rs ! 0) = [1, 4] \<and> shape (rs ! 1) = [1, 4]
    \<and> length (elems (ws ! 0)) = 8 \<and> length (elems (ws ! 1)) = 4
    \<and> length (elems (rs ! 0)) = 4 \<and> length (elems (rs ! 1)) = 4
    \<and> list_all (\<lambda>x. - sqrt 2 \<le> x \<and> x \<le> sqrt 2) (elems (ws ! 0))
    \<and> list_all (\<lambda>x. - sqrt 2 \<le> x \<and> x \<le> sqrt 2) (elems (ws ! 1))
    \<and> list_all (\<lambda>x. - sqrt 3 \<le> x \<and> x \<le> sqrt 3) (elems (rs ! 0))
    \<and> list_all (\<lambda>x. - sqrt 3 \<le> x \<and> x \<le> sqrt 3) (elems (rs ! 1))
    \<and> trainable (ws ! 0) \<and> trainable (ws ! 1) \<and> trainable (rs ! 0) \<and> trainable (rs ! 1)"
proof -
  let ?self = "\<lparr>dev_str = ''cpu'', v = Container [],
         LSTM.input_channels = 2, LSTM.output_channels = 1, num_layers = 2,
         return_sequence = True, return_state = True\<rparr>"
  have h: "0 \<le> LSTM.input_channels ?self" "0 < LSTM.output_channels ?self" by simp_all
  from LSTM_create_variables_layers [OF h mid_samples_unit, of "''cpu''"]
  obtain ws rs g' where
    run: "LSTM_create_variables ?self ''cpu'' mid_samples
        = Inr (Container [(''input'', Container (layer_entries ws)),
                          (''recurrent'', Container (layer_entries rs))], g')"
    and len: "length ws = 2" "length rs = 2"
    and each: "\<forall>i<2.
          shape (ws ! i) = [if i = 0 then 2 else 1, 4]
        \<and> length (elems (ws ! i)) = nat ((if i = 0 then 2 else 1) * 4)
        \<and> list_all (\<lambda>x. - sqrt 2 \<le> x \<and> x \<le> sqrt 2) (elems (ws ! i))
        \<and> trainable (ws ! i)
        \<and> shape (rs ! i) = [1, 4]
        \<and> length (elems (rs ! i)) = 4
        \<and> list_all (\<lambda>x. - sqrt 3 \<le> x \<and> x \<le> sqrt 3) (elems (rs ! i))
        \<and> trainable (rs ! i)"
    by auto
  from each have "shape (ws ! 0) = [2, 4]" "shape (ws ! 1) = [1, 4]"
    "shape (rs ! 0) = [1, 4]" "shape (rs ! 1) = [1, 4]"
    "length (elems (ws ! 0)) = 8" "length (elems (ws ! 1)) = 4"
    "length (elems (rs ! 0)) = 4" "length (elems (rs ! 1)) = 4"
    "list_all (\<lambda>x. - sqrt 2 \<le> x \<and> x \<le> sqrt 2) (elems (ws ! 0))"
    "list_all (\<lambda>x. - sqrt 2 \<le> x \<and> x \<le> sqrt 2) (elems (ws ! 1))"
    "list_all (\<lambda>x. - sqrt 3 \<le> x \<and> x \<le> sqrt 3) (elems (rs ! 0))"
    "list_all (\<lambda>x. - sqrt 3 \<le> x \<and> x \<le> sqrt 3) (elems (rs ! 1))"
    "trainable (ws ! 0)" "trainable (ws ! 1)" "trainable (rs ! 0)" "trainable (rs ! 1)"
    by simp_all
  with run len show ?thesis by blast
qed

subsection \<open>LSTM: initial state\<close>

lemma prod_list_nonneg:
  "list_all (\<lambda>k. 0 \<le> k) shp \<Longrightarrow> 0 \<le> prod_list (shp :: int list)"
  by (induction shp) simp_all

text \<open>
  C6. For a batch shape without negative entries, an output channel count and a layer
  count that are not negative, \<open>get_initial_state\<close> returns two lists of length
  \<open>num_layers\<close> whose elements are zero-filled tensors of shape
  \<open>batch_shape @ [output_channels]\<close>.
\<close>

theorem LSTM_get_initial_state_zeros:
  assumes bs: "list_all (\<lambda>k. 0 \<le> k) batch_shape"
    and oc: "0 \<le> LSTM.output_channels self"
    and n: "0 \<le> num_layers self"
  shows "\<exists>hs cs. LSTM_get_initial_state self batch_shape = Inr (hs, cs)
    \<and> int (length hs) = num_layers self \<and> int (length cs) = num_layers self
    \<and> list_all (\<lambda>t. shape t = batch_shape @ [LSTM.output_channels self]
                   \<and> elems t = replicate (numel (batch_shape @ [LSTM.output_channels self])) 0)
         (hs @ cs)"
proof -
  let ?shp = "batch_shape @ [LSTM.output_channels self]"
  let ?z = "\<lparr>shape = ?shp, elems = replicate (numel ?shp) (0::real), device = None,
             trainable = False\<rparr>"
  have "list_all (\<lambda>k. 0 \<le> k) ?shp" using bs oc by simp
  then have z: "zeros ?shp None = Inr ?z" by (rule zeros_nonneg)
  have run: "LSTM_get_initial_state self batch_shape
      = Inr (replicate (nat (num_layers self)) ?z, replicate (nat (num_layers self)) ?z)"
    by (simp add: LSTM_get_initial_state_def z list_comp_const py_range_def)
  show ?thesis
    unfolding run using n by (simp add: list_all_iff)
qed

theorem LSTM_get_initial_state_zeros_witness:
  "\<exists>hs cs.
     LSTM_get_initial_state
       \<lparr>dev_str = ''cpu'', v = Container [],
        LSTM.input_channels = 8, LSTM.output_channels = 3, num_layers = 2,
        return_sequence = True, return_state = True\<rparr> [2] = Inr (hs, cs)
   \<and> int (length hs) = 2 \<and> int (length cs) = 2
   \<and> list_all (\<lambda>t. shape t = [2, 3] \<and> elems t = [0, 0, 0, 0, 0, 0]) (hs @ cs)"
  using LSTM_get_initial_state_zeros
    [of "[2]" "\<lparr>dev_str = ''cpu'', v = Container [],
        LSTM.input_channels = 8, LSTM.output_channels = 3, num_layers = 2,
        return_sequence = True, return_state = True\<rparr>"]
  by (simp add: numel_def eval_nat_numeral)

subsection \<open>LSTM: device targets\<close>

lemma LSTM_get_initial_state_run:
  assumes "list_all (\<lambda>k. 0 \<le> k) (batch_shape @ [LSTM.output_channels self])"
  shows "LSTM_get_initial_state self batch_shape
      = Inr (replicate (nat (num_layers self))
               \<lparr>shape = batch_shape @ [LSTM.output_channels self],
                elems = replicate (numel (batch_shape @ [LSTM.output_channels self])) 0,
                device = None, trainable = False\<rparr>,
             replicate (nat (num_layers self))
               \<lparr>shape = batch_shape @ [LSTM.output_channels self],
                elems = replicate (numel (batch_shape @ [LSTM.output_channels self])) 0,
                device = None, trainable = False\<rparr>)"
  by (simp add: LSTM_get_initial_state_def zeros_nonneg [OF assms] list_comp_const py_range_def)

lemma zeros_device: "zeros shp dev = Inr t \<Longrightarrow> device t = dev"
  by (auto simp: zeros_def split: if_splits)

lemma random_uniform_device: "random_uniform lo hi shp dev g = Inr (t, g') \<Longrightarrow> device t = dev"
  by (auto simp: random_uniform_def split: if_splits pynum.splits)

lemma ebind_Inr: "ebind m f = Inr y \<Longrightarrow> \<exists>x. m = Inr x \<and> f x = Inr y"
  by (cases m) simp_all

lemma layer_weights_device:
  "list_comp_rng
     (\<lambda>i g0. ebind (random_uniform lo hi (shpf i) dev g0)
                (\<lambda>(t, g'). Inr (Container [(''w'', Var (variable t))], g'))) js g = Inr (cs, g')
   \<Longrightarrow> length cs = length js
     \<and> list_all (\<lambda>t. device t = dev) (concat (map tensors_of cs))"
proof (induction js arbitrary: g cs)
  case Nil
  then show ?case by simp
next
  case (Cons i js)
  let ?f = "\<lambda>i g0. ebind (random_uniform lo hi (shpf i) dev g0)
                (\<lambda>(t, g'). Inr (Container [(''w'', Var (variable t))], g'))"
  from Cons.prems obtain c g1 where head: "?f i g = Inr (c, g1)"
    and tl: "ebind (list_comp_rng ?f js g1) (\<lambda>(xs, g''). Inr (c # xs, g'')) = Inr (cs, g')"
    by (auto dest!: ebind_Inr)
  from tl obtain cs' where rest: "list_comp_rng ?f js g1 = Inr (cs', g')" and cs: "cs = c # cs'"
    by (auto dest!: ebind_Inr)
  from head obtain t where "random_uniform lo hi (shpf i) dev g = Inr (t, g1)"
    and c: "c = Container [(''w'', Var (variable t))]"
    by (auto dest!: ebind_Inr)
  then have "device (variable t) = dev"
    by (simp add: variable_def random_uniform_device)
  with Cons.IH [OF rest] show ?case by (simp add: cs c)
qed

lemma py_dict_layer_keys:
  assumes "length cs = n"
  shows "py_dict (zip (map (\<lambda>i. ''layer_'' @ str i) [0..<n]) cs)
         = zip (map (\<lambda>i. ''layer_'' @ str i) [0..<n]) cs"
proof -
  let ?ks = "map (\<lambda>i. ''layer_'' @ str i) [0..<n]"
  have "length ?ks = length cs" using assms by simp
  then have "map fst (zip ?ks cs) = ?ks" by (rule map_fst_zip)
  then have "distinct (map fst (zip ?ks cs))"
    using layer_keys_distinct [of n] by (simp only:)
  then show ?thesis by (rule py_dict_distinct)
qed

lemma tensors_of_zip:
  assumes "length ks = length cs"
  shows "tensors_of (Container (zip ks cs)) = concat (map tensors_of cs)"
proof -
  from assms have "concat (map (\<lambda>kc. tensors_of (snd kc)) (zip ks cs)) = concat (map tensors_of cs)"
    by (induction ks cs rule: list_induct2) simp_all
  then show ?thesis by simp
qed

lemma LSTM_create_variables_Inr:
  assumes "LSTM_create_variables self dev g = Inr (c, g')"
  shows "\<exists>q ws g1 q2 rs.
      list_comp_rng
        (\<lambda>i g0. ebind (random_uniform (py_neg (py_pow_half q)) (py_pow_half q)
                         [if i = 0 then LSTM.input_channels self else LSTM.output_channels self,
                          4 * LSTM.output_channels self] (Some dev) g0)
                   (\<lambda>(t, g'). Inr (Container [(''w'', Var (variable t))], g')))
        (py_range (num_layers self)) g = Inr (ws, g1)
    \<and> list_comp_rng
        (\<lambda>i g0. ebind (random_uniform (py_neg (py_pow_half q2)) (py_pow_half q2)
                         [LSTM.output_channels self, 4 * LSTM.output_channels self] (Some dev) g0)
                   (\<lambda>(t, g'). Inr (Container [(''w'', Var (variable t))], g')))
        (py_range (num_layers self)) g1 = Inr (rs, g')
    \<and> c = Container
          [(''input'', Container (py_dict
              (zip (map (\<lambda>i. ''layer_'' @ str i) (py_range (num_layers self))) ws))),
           (''recurrent'', Container (py_dict
              (zip (map (\<lambda>i. ''layer_'' @ str i) (py_range (num_layers self))) rs)))]"
  using assms unfolding LSTM_create_variables_def Let_def ebind_def
  by (simp split: sum.splits prod.splits) blast

lemma LSTM_create_variables_device:
  assumes "LSTM_create_variables self dev g = Inr (c, g')"
  shows "list_all (\<lambda>t. device t = Some dev) (tensors_of c)"
proof -
  let ?n = "nat (num_layers self)"
  let ?keys = "map (\<lambda>i. ''layer_'' @ str i) [0..<?n]"
  from LSTM_create_variables_Inr [OF assms] obtain q ws g1 q2 rs where
    c1: "list_comp_rng
        (\<lambda>i g0. ebind (random_uniform (py_neg (py_pow_half q)) (py_pow_half q)
                         [if i = 0 then LSTM.input_channels self else LSTM.output_channels self,
                          4 * LSTM.output_channels self] (Some dev) g0)
                   (\<lambda>(t, g'). Inr (Container [(''w'', Var (variable t))], g')))
        (py_range (num_layers self)) g = Inr (ws, g1)"
    and c2: "list_comp_rng
        (\<lambda>i g0. ebind (random_uniform (py_neg (py_pow_half q2)) (py_pow_half q2)
                         [LSTM.output_channels self, 4 * LSTM.output_channels self] (Some dev) g0)
                   (\<lambda>(t, g'). Inr (Container [(''w'', Var (variable t))], g')))
        (py_range (num_layers self)) g1 = Inr (rs, g')"
    and c: "c = Container [(''input'', Container (py_dict (zip ?keys ws))),
                           (''recurrent'', Container (py_dict (zip ?keys rs)))]"
    unfolding py_range_def by blast
  from layer_weights_device [where shpf = "\<lambda>i. [if i = 0 then LSTM.input_channels self
                  else LSTM.output_channels self, 4 * LSTM.output_channels self]", OF c1]
  have ws: "length ws = ?n" "list_all (\<lambda>t. device t = Some dev) (concat (map tensors_of ws))"
    by (simp_all add: py_range_def)
  from layer_weights_device [where shpf = "\<lambda>i. [LSTM.output_channels self,
                  4 * LSTM.output_channels self]", OF c2]
  have rs: "length rs = ?n" "list_all (\<lambda>t. device t = Some dev) (concat (map tensors_of rs))"
    by (simp_all add: py_range_def)
  have "tensors_of (Container (py_dict (zip ?keys ws))) = concat (map tensors_of ws)"
    using ws(1) by (simp only: py_dict_layer_keys tensors_of_zip length_map length_upt diff_zero)
  moreover have "tensors_of (Container (py_dict (zip ?keys rs))) = concat (map tensors_of rs)"
    using rs(1) by (simp only: py_dict_layer_keys tensors_of_zip length_map length_upt diff_zero)
  ultimately have "tensors_of c = concat (map tensors_of ws) @ concat (map tensors_of rs)"
    unfolding c by simp
  with ws rs show ?thesis by simp
qed

lemma LSTM_get_initial_state_device:
  assumes "LSTM_get_initial_state self batch_shape = Inr (hs, cs)"
  shows "list_all (\<lambda>t. device t = None) (hs @ cs)"
proof -
  let ?f = "\<lambda>i::nat. zeros (batch_shape @ [LSTM.output_channels self]) None"
  from assms have h: "list_comp ?f (py_range (num_layers self)) = Inr hs"
    and c: "list_comp ?f (py_range (num_layers self)) = Inr cs"
    unfolding LSTM_get_initial_state_def by (auto dest!: ebind_Inr)
  have "device t = None" if "t \<in> set xs" and "list_comp ?f js = Inr xs" for t xs js
  proof -
    from that(1) obtain k where "k < length xs" and "xs ! k = t"
      by (auto simp: in_set_conv_nth)
    with list_comp_Inr [OF that(2)] have "?f (js ! k) = Inr t" by auto
    then show ?thesis by (rule zeros_device)
  qed
  with h c show ?thesis by (auto simp: list_all_iff)
qed

lemma LSTM_init_result:
  assumes ic: "0 \<le> ic" and oc: "0 < oc" and g: "unit_samples g"
  shows "\<exists>ws rs g'.
      LSTM_init ic oc n rseq rst dev None g
        = Inr (\<lparr>dev_str = dev,
                v = Container [(''input'', Container (layer_entries ws)),
                               (''recurrent'', Container (layer_entries rs))],
                LSTM.input_channels = ic, LSTM.output_channels = oc, num_layers = n,
                return_sequence = rseq, return_state = rst\<rparr>, g')
    \<and> length ws = nat n \<and> length rs = nat n
    \<and> (\<forall>i<nat n. shape (ws ! i) = [if i = 0 then ic else oc, 4 * oc]
                  \<and> shape (rs ! i) = [oc, 4 * oc])"
proof -
  let ?self0 = "\<lparr>dev_str = dev, v = Container [],
        LSTM.input_channels = ic, LSTM.output_channels = oc, num_layers = n,
        return_sequence = rseq, return_state = rst\<rparr>"
  have h: "0 \<le> LSTM.input_channels ?self0" "0 < LSTM.output_channels ?self0"
    using ic oc by simp_all
  from LSTM_create_variables_result [OF h g, of dev] obtain ws rs g' where
    run: "LSTM_create_variables ?self0 dev g
        = Inr (Container [(''input'', Container (layer_entries ws)),
                          (''recurrent'', Container (layer_entries rs))], g')"
    and len: "length ws = nat n" "length rs = nat n"
    and shp: "\<forall>i<nat n. shape (ws ! i) = [if i = 0 then ic else oc, 4 * oc]"
      "\<forall>i<nat n. shape (rs ! i) = [oc, 4 * oc]"
    by auto
  have "LSTM_init ic oc n rseq rst dev None g
        = Inr (\<lparr>dev_str = dev,
                v = Container [(''input'', Container (layer_entries ws)),
                               (''recurrent'', Container (layer_entries rs))],
                LSTM.input_channels = ic, LSTM.output_channels = oc, num_layers = n,
                return_sequence = rseq, return_state = rst\<rparr>, g')"
    by (simp add: LSTM_init_def Module_init_def run)
  with len shp show ?thesis by blast
qed

text \<open>
  C9. Let an \<open>LSTM\<close> be constructed for the device target \<open>dev\<close> with its variables
  created internally. Every tensor of its container was created with the device target
  \<open>dev\<close>, while every hidden and cell state tensor that \<open>get_initial_state\<close> returns
  was created with no device target at all, whatever \<open>dev\<close> is.
\<close>

theorem LSTM_device_targets:
  assumes "LSTM_init ic oc n rseq rst dev None g = Inr (self, g')"
  shows "dev_str self = dev
    \<and> list_all (\<lambda>t. device t = Some dev) (tensors_of (v self))
    \<and> (\<forall>batch_shape hs cs.
          LSTM_get_initial_state self batch_shape = Inr (hs, cs) \<longrightarrow>
          list_all (\<lambda>t. device t = None) (hs @ cs))"
proof -
  let ?self0 = "\<lparr>dev_str = dev, v = Container [],
        LSTM.input_channels = ic, LSTM.output_channels = oc, num_layers = n,
        return_sequence = rseq, return_state = rst\<rparr>"
  from assms obtain c where
    create: "LSTM_create_variables ?self0 dev g = Inr (c, g')"
    and self: "self = ?self0\<lparr>dev_str := dev, v := c\<rparr>"
    unfolding LSTM_init_def Module_init_def by (auto dest!: ebind_Inr)
  from LSTM_create_variables_device [OF create] self
  show ?thesis by (auto dest: LSTM_get_initial_state_device)
qed


theorem LSTM_device_targets_witness:
  "\<exists>self g'.
     LSTM_init 2 1 2 True True ''cuda:0'' None mid_samples = Inr (self, g')
   \<and> dev_str self = ''cuda:0''
   \<and> list_all (\<lambda>t. device t = Some ''cuda:0'') (tensors_of (v self))
   \<and> length (tensors_of (v self)) = 4
   \<and> (\<exists>hs cs. LSTM_get_initial_state self [3] = Inr (hs, cs) \<and> length hs = 2 \<and> length cs = 2
        \<and> list_all (\<lambda>t. device t = None) (hs @ cs))"
proof -
  from LSTM_init_result [OF _ _ mid_samples_unit, of 2 1 2 True True "''cuda:0''"]
  obtain ws rs g' where
    init: "LSTM_init 2 1 2 True True ''cuda:0'' None mid_samples
        = Inr (\<lparr>dev_str = ''cuda:0'',
                v = Container [(''input'', Container (layer_entries ws)),
                               (''recurrent'', Container (layer_entries rs))],
                LSTM.input_channels = 2, LSTM.output_channels = 1, num_layers = 2,
                return_sequence = True, return_state = True\<rparr>, g')"
      (is "_ = Inr (?self, _)")
    and len: "length ws = 2" "length rs = 2"
    by auto
  have st: "LSTM_get_initial_state ?self [3]
      = Inr (replicate 2 \<lparr>shape = [3, 1], elems = replicate (numel [3, 1]) 0,
                          device = None, trainable = False\<rparr>,
             replicate 2 \<lparr>shape = [3, 1], elems = replicate (numel [3, 1]) 0,
                          device = None, trainable = False\<rparr>)"
    using LSTM_get_initial_state_run [of "[3]" ?self] by simp
  have n: "length (tensors_of (v ?self)) = 4"
    using len tensors_of_layer_entries [of ws] tensors_of_layer_entries [of rs] by simp
  from LSTM_device_targets [OF init] st
  have "dev_str ?self = ''cuda:0''"
    and "list_all (\<lambda>t. device t = Some ''cuda:0'') (tensors_of (v ?self))"
    and "list_all (\<lambda>t. device t = None)
           (replicate 2 \<lparr>shape = [3, 1], elems = replicate (numel [3, 1]) 0,
                          device = None, trainable = False\<rparr>
            @ replicate 2 \<lparr>shape = [3, 1], elems = replicate (numel [3, 1]) 0,
                          device = None, trainable = False\<rparr>)"
    by blast+
  with init st n show ?thesis
    by (intro exI conjI) (assumption, simp_all)
qed

subsection \<open>LSTM: the loop of the forward pass and its specification\<close>

lemma LSTM_layers_append:
  "LSTM_layers upd (zs @ zs') h hl cl
   = ebind (LSTM_layers upd zs h hl cl) (\<lambda>(h', hl', cl'). LSTM_layers upd zs' h' hl' cl')"
proof (induction upd zs h hl cl rule: LSTM_layers.induct)
  case (1 upd h_t h_n_list c_n_list)
  show ?case by simp
next
  case (2 upd h_0 c_0 ki lstm_input_var kr lstm_recurrent_var rest h_t h_n_list c_n_list)
  show ?case
  proof (cases "get lstm_input_var ''w''")
    case Inl then show ?thesis by simp
  next
    case cw: (Inr cw)
    show ?thesis
    proof (cases "get lstm_recurrent_var ''w''")
      case Inl then show ?thesis by (simp add: cw)
    next
      case cr: (Inr cr)
      show ?thesis
      proof (cases "as_tensor cw")
        case Inl then show ?thesis by (simp add: cw cr)
      next
        case wi: (Inr wi)
        show ?thesis
        proof (cases "as_tensor cr")
          case Inl then show ?thesis by (simp add: cw cr wi)
        next
          case wr: (Inr wr)
          show ?thesis
          proof (cases "upd h_t h_0 c_0 wi wr")
            case Inl then show ?thesis by (simp add: cw cr wi wr)
          next
            case (Inr p)
            obtain h' c_n where p: "p = (h', c_n)" by (cases p)
            show ?thesis
            proof (cases "last_step h'")
              case Inl then show ?thesis by (simp add: cw cr wi wr Inr p)
            next
              case h_n: (Inr h_n)
              show ?thesis by (simp add: cw cr wi wr Inr p h_n "2.IH")
            qed
          qed
        qed
      qed
    qed
  qed
qed

lemma LSTM_layers_single:
  "LSTM_layers upd [(h0, c0, (ki, Container [(''w'', Var wi)]), (kr, Container [(''w'', Var wr)]))]
     s hl cl
   = ebind (upd s h0 c0 wi wr) (\<lambda>(s', c). ebind (last_step s') (\<lambda>h. Inr (s', hl @ [h], cl @ [c])))"
proof (cases "upd s h0 c0 wi wr")
  case Inl then show ?thesis by simp
next
  case (Inr p)
  obtain s' c where p: "p = (s', c)" by (cases p)
  show ?thesis by (cases "last_step s'") (simp_all add: Inr p)
qed

lemma layer_entries_length [simp]: "length (layer_entries ts) = length ts"
  by (simp add: layer_entries_def)

lemma layer_entries_nth:
  "i < length ts \<Longrightarrow> layer_entries ts ! i = (''layer_'' @ str i, Container [(''w'', Var (ts ! i))])"
  by (simp add: layer_entries_def)


lemma LSTM_layers_take:
  assumes "k \<le> length hs0" "k \<le> length cs0" "k \<le> length wis" "k \<le> length wrs"
  shows "LSTM_layers upd
           (take k (zip hs0 (zip cs0 (zip (layer_entries wis) (layer_entries wrs))))) x [] []
         = spec_layers upd hs0 cs0 wis wrs x k"
  using assms
proof (induction k)
  case 0
  show ?case by simp
next
  case (Suc k)
  let ?zs = "zip hs0 (zip cs0 (zip (layer_entries wis) (layer_entries wrs)))"
  from Suc.prems have k: "k < length hs0" "k < length cs0" "k < length wis" "k < length wrs"
    by simp_all
  then have len: "k < length ?zs" by simp
  have nth: "?zs ! k = (hs0 ! k, cs0 ! k,
                (''layer_'' @ str k, Container [(''w'', Var (wis ! k))]),
                (''layer_'' @ str k, Container [(''w'', Var (wrs ! k))]))"
    using k by (simp add: layer_entries_nth)
  have IH: "LSTM_layers upd (take k ?zs) x [] [] = spec_layers upd hs0 cs0 wis wrs x k"
    using Suc.IH k by simp
  have "LSTM_layers upd (take (Suc k) ?zs) x [] []
      = ebind (LSTM_layers upd (take k ?zs) x [] [])
          (\<lambda>(h', hl', cl'). LSTM_layers upd [?zs ! k] h' hl' cl')"
    by (simp only: take_Suc_conv_app_nth [OF len] LSTM_layers_append)
  also have "\<dots> = spec_layers upd hs0 cs0 wis wrs x (Suc k)"
    by (simp only: IH nth LSTM_layers_single spec_layers.simps)
  finally show ?case .
qed

lemma LSTM_layers_spec:
  "LSTM_layers upd (zip hs0 (zip cs0 (zip (layer_entries wis) (layer_entries wrs)))) x [] []
   = spec_layers upd hs0 cs0 wis wrs x
       (min (length hs0) (min (length cs0) (min (length wis) (length wrs))))"
proof -
  let ?zs = "zip hs0 (zip cs0 (zip (layer_entries wis) (layer_entries wrs)))"
  let ?k = "min (length hs0) (min (length cs0) (min (length wis) (length wrs)))"
  have "length ?zs = ?k" by simp
  then have "take ?k ?zs = ?zs" by simp
  moreover have "LSTM_layers upd (take ?k ?zs) x [] [] = spec_layers upd hs0 cs0 wis wrs x ?k"
    by (rule LSTM_layers_take) simp_all
  ultimately show ?thesis by simp
qed

lemma LSTM_forward_spec:
  assumes "v self = Container [(''input'', Container (layer_entries wis)),
                               (''recurrent'', Container (layer_entries wrs))]"
  shows "LSTM_forward upd self x ist
    = ebind (case ist of
               None \<Rightarrow> LSTM_get_initial_state self (take (length (shape x) - 2) (shape x))
             | Some st \<Rightarrow> Inr st) (\<lambda>st.
        ebind (spec_layers upd (fst st) (snd st) wis wrs x
                 (min (length (fst st)) (min (length (snd st)) (min (length wis) (length wrs)))))
          (\<lambda>(h_t, h_n_list, c_n_list).
             ebind (if \<not> return_sequence self then last_step h_t else Inr h_t) (\<lambda>h_out.
               if \<not> return_state self then Inr (Output h_out)
               else Inr (OutputAndState h_out (h_n_list, c_n_list)))))"
  unfolding LSTM_forward_def assms
  by (simp only: get.simps map_of.simps fst_conv snd_conv if_True if_False option.case
        ebind_simps items.simps LSTM_layers_spec list.inject char.inject simp_thms
        fun_upd_apply)


lemma last_step_shape:
  assumes "shape t = batch @ [T, d]" and "0 < T"
  shows "\<exists>l. last_step t = Inr l \<and> shape l = batch @ [d]"
  using assms by (simp add: last_step_def)

lemma spec_layers_Suc_Inr:
  assumes "spec_layers upd hs0 cs0 wis wrs x (Suc i) = Inr (s', hs', cs')"
  shows "\<exists>s hs cs c h. spec_layers upd hs0 cs0 wis wrs x i = Inr (s, hs, cs)
    \<and> upd s (hs0 ! i) (cs0 ! i) (wis ! i) (wrs ! i) = Inr (s', c)
    \<and> last_step s' = Inr h \<and> hs' = hs @ [h] \<and> cs' = cs @ [c]"
proof -
  from assms obtain p where p: "spec_layers upd hs0 cs0 wis wrs x i = Inr p"
    by (cases "spec_layers upd hs0 cs0 wis wrs x i") simp_all
  obtain s hs cs where pp: "p = (s, hs, cs)" by (cases p)
  from assms p pp obtain q where q: "upd s (hs0 ! i) (cs0 ! i) (wis ! i) (wrs ! i) = Inr q"
    by (cases "upd s (hs0 ! i) (cs0 ! i) (wis ! i) (wrs ! i)") simp_all
  obtain s1 c where qq: "q = (s1, c)" by (cases q)
  from assms p pp q qq obtain h where h: "last_step s1 = Inr h"
    by (cases "last_step s1") simp_all
  from assms p pp q qq h have "s' = s1" "hs' = hs @ [h]" "cs' = cs @ [c]" by simp_all
  with p pp q qq h show ?thesis by blast
qed

lemma spec_layers_length:
  "spec_layers upd hs0 cs0 wis wrs x k = Inr (seq, hs, cs) \<Longrightarrow> length hs = k \<and> length cs = k"
proof (induction k arbitrary: seq hs cs)
  case 0
  then show ?case by simp
next
  case (Suc k)
  from spec_layers_Suc_Inr [OF Suc.prems] obtain s hs1 cs1 c h where
    "spec_layers upd hs0 cs0 wis wrs x k = Inr (s, hs1, cs1)"
    and "hs = hs1 @ [h]" "cs = cs1 @ [c]"
    by blast
  with Suc.IH show ?case by simp
qed

lemma spec_layers_prefix:
  "spec_layers upd hs0 cs0 wis wrs x k = Inr (seq, hs, cs) \<Longrightarrow> j \<le> k \<Longrightarrow>
   \<exists>s. spec_layers upd hs0 cs0 wis wrs x j = Inr (s, take j hs, take j cs)"
proof (induction k arbitrary: seq hs cs)
  case 0
  then show ?case by simp
next
  case (Suc k)
  from spec_layers_Suc_Inr [OF Suc.prems(1)] obtain s hs1 cs1 c h where
    prev: "spec_layers upd hs0 cs0 wis wrs x k = Inr (s, hs1, cs1)"
    and app: "hs = hs1 @ [h]" "cs = cs1 @ [c]"
    by blast
  from spec_layers_length [OF prev] have len: "length hs1 = k" "length cs1 = k" by simp_all
  show ?case
  proof (cases "j = Suc k")
    case True
    with Suc.prems(1) spec_layers_length [OF Suc.prems(1)] show ?thesis by simp
  next
    case False
    with Suc.prems(2) have "j \<le> k" by simp
    from Suc.IH [OF prev this] obtain s1 where
      "spec_layers upd hs0 cs0 wis wrs x j = Inr (s1, take j hs1, take j cs1)" by blast
    with \<open>j \<le> k\<close> len app show ?thesis by simp
  qed
qed

lemma spec_layers_hidden:
  assumes "spec_layers upd hs0 cs0 wis wrs x k = Inr (seq, hs, cs)" and "i < k"
  shows "\<exists>s. spec_layers upd hs0 cs0 wis wrs x (Suc i) = Inr (s, take (Suc i) hs, take (Suc i) cs)
           \<and> last_step s = Inr (hs ! i)"
proof -
  from assms(2) have "Suc i \<le> k" by simp
  from spec_layers_prefix [OF assms(1) this] obtain s where
    s: "spec_layers upd hs0 cs0 wis wrs x (Suc i) = Inr (s, take (Suc i) hs, take (Suc i) cs)"
    by blast
  from spec_layers_Suc_Inr [OF s] obtain s0 hs1 cs1 c h where
    prev: "spec_layers upd hs0 cs0 wis wrs x i = Inr (s0, hs1, cs1)"
    and h: "last_step s = Inr h" and app: "take (Suc i) hs = hs1 @ [h]"
    by blast
  from spec_layers_length [OF prev] have len: "length hs1 = i" by simp
  have "(hs1 @ [h]) ! length hs1 = h" by (rule nth_append_length)
  then have "take (Suc i) hs ! i = h" by (simp only: app len)
  then have "hs ! i = h" by simp
  with s h show ?thesis by blast
qed

lemma spec_layers_shapes:
  assumes c: "lstm_update_contract upd"
    and x: "shape x = batch @ [T, ic]" and T: "0 < T"
  shows "k \<le> length hs0 \<Longrightarrow> k \<le> length cs0 \<Longrightarrow> k \<le> length wis \<Longrightarrow> k \<le> length wrs \<Longrightarrow>
    \<forall>i<k. shape (hs0 ! i) = batch @ [oc] \<and> shape (cs0 ! i) = batch @ [oc]
          \<and> shape (wis ! i) = [if i = 0 then ic else oc, 4 * oc]
          \<and> shape (wrs ! i) = [oc, 4 * oc] \<Longrightarrow>
    \<exists>seq hs cs. spec_layers upd hs0 cs0 wis wrs x k = Inr (seq, hs, cs)
      \<and> shape seq = batch @ [T, if k = 0 then ic else oc]
      \<and> length hs = k \<and> length cs = k
      \<and> (\<forall>i<k. shape (hs ! i) = batch @ [oc] \<and> shape (cs ! i) = batch @ [oc])"
proof (induction k)
  case 0
  show ?case by (simp add: x)
next
  case (Suc k)
  from Suc.prems have "\<forall>i<k. shape (hs0 ! i) = batch @ [oc] \<and> shape (cs0 ! i) = batch @ [oc]
          \<and> shape (wis ! i) = [if i = 0 then ic else oc, 4 * oc]
          \<and> shape (wrs ! i) = [oc, 4 * oc]"
    by simp
  with Suc.IH Suc.prems(1-4) obtain seq hs cs where
    prev: "spec_layers upd hs0 cs0 wis wrs x k = Inr (seq, hs, cs)"
    and seq: "shape seq = batch @ [T, if k = 0 then ic else oc]"
    and len: "length hs = k" "length cs = k"
    and shp: "\<forall>i<k. shape (hs ! i) = batch @ [oc] \<and> shape (cs ! i) = batch @ [oc]"
    by auto
  from Suc.prems(5) have lay: "shape (hs0 ! k) = batch @ [oc]" "shape (cs0 ! k) = batch @ [oc]"
    "shape (wis ! k) = [if k = 0 then ic else oc, 4 * oc]" "shape (wrs ! k) = [oc, 4 * oc]"
    by simp_all
  from c [unfolded lstm_update_contract_def, rule_format,
      of seq batch T "if k = 0 then ic else oc" "hs0 ! k" oc "cs0 ! k" "wis ! k" "wrs ! k"]
    seq lay
  obtain hts ct where
    step: "upd seq (hs0 ! k) (cs0 ! k) (wis ! k) (wrs ! k) = Inr (hts, ct)"
    and hts: "shape hts = batch @ [T, oc]" and ct: "shape ct = batch @ [oc]"
    by blast
  from last_step_shape [OF hts T] obtain l where
    l: "last_step hts = Inr l" and ls: "shape l = batch @ [oc]"
    by blast
  have run: "spec_layers upd hs0 cs0 wis wrs x (Suc k) = Inr (hts, hs @ [l], cs @ [ct])"
    by (simp add: prev step l)
  have all: "\<forall>i<Suc k. shape ((hs @ [l]) ! i) = batch @ [oc]
      \<and> shape ((cs @ [ct]) ! i) = batch @ [oc]"
    using shp len ls ct by (auto simp: nth_append less_Suc_eq)
  show ?case
  proof (intro exI conjI)
    show "spec_layers upd hs0 cs0 wis wrs x (Suc k) = Inr (hts, hs @ [l], cs @ [ct])"
      by (rule run)
    show "shape hts = batch @ [T, if Suc k = 0 then ic else oc]"
      by (simp add: hts)
    show "length (hs @ [l]) = Suc k" "length (cs @ [ct]) = Suc k"
      by (simp_all add: len)
  qed (rule all)
qed

subsection \<open>LSTM: forward pass\<close>

lemma LSTM_forward_spec_output:
  assumes "v self = Container [(''input'', Container (layer_entries wis)),
                               (''recurrent'', Container (layer_entries wrs))]"
  shows "LSTM_forward upd self x ist
    = ebind (case ist of
               None \<Rightarrow> LSTM_get_initial_state self (take (length (shape x) - 2) (shape x))
             | Some st \<Rightarrow> Inr st) (\<lambda>st.
        ebind (spec_layers upd (fst st) (snd st) wis wrs x
                 (min (length (fst st)) (min (length (snd st)) (min (length wis) (length wrs)))))
          (spec_output self))"
proof -
  have "(\<lambda>(h_t, h_n_list, c_n_list).
             ebind (if \<not> return_sequence self then last_step h_t else Inr h_t) (\<lambda>h_out.
               if \<not> return_state self then Inr (Output h_out)
               else Inr (OutputAndState h_out (h_n_list, c_n_list)))) = spec_output self"
  proof (rule ext)
    fix r :: "tensor \<times> tensor list \<times> tensor list"
    obtain s hs cs where r: "r = (s, hs, cs)" by (cases r)
    show "(case r of (h_t, h_n_list, c_n_list) \<Rightarrow>
             ebind (if \<not> return_sequence self then last_step h_t else Inr h_t) (\<lambda>h_out.
               if \<not> return_state self then Inr (Output h_out)
               else Inr (OutputAndState h_out (h_n_list, c_n_list)))) = spec_output self r"
      by (cases "return_state self"; cases "return_sequence self")
         (simp_all add: spec_output_def r)
  qed
  with LSTM_forward_spec [OF assms, of upd x ist] show ?thesis by simp
qed

lemma LSTM_get_initial_state_length:
  assumes "LSTM_get_initial_state self bs = Inr (hs0, cs0)"
  shows "length hs0 = nat (num_layers self) \<and> length cs0 = nat (num_layers self)"
proof -
  let ?f = "\<lambda>i::nat. zeros (bs @ [LSTM.output_channels self]) None"
  from assms have "list_comp ?f (py_range (num_layers self)) = Inr hs0"
    and "list_comp ?f (py_range (num_layers self)) = Inr cs0"
    unfolding LSTM_get_initial_state_def by (auto dest!: ebind_Inr)
  then show ?thesis by (auto dest!: list_comp_Inr simp: py_range_def)
qed

lemma example_initial_state:
  "LSTM_get_initial_state (example_lstm rseq rst) [1]
   = Inr ([example_state 0, example_state 0], [example_state 0, example_state 0])"
  using LSTM_get_initial_state_run [of "[1]" "example_lstm rseq rst"]
  by (simp add: example_lstm_def example_state_def numel_def numeral_2_eq_2)

lemma example_step0:
  "sum_lstm_update example_input (example_state a) (example_state b)
     (example_weights ! 0) (example_recurrent ! 0)
   = Inr (\<lparr>shape = [1, 2, 1], elems = [10 + a, 10 + a], device = None, trainable = False\<rparr>,
          example_state (b + 1))"
  by (simp add: sum_lstm_update_def example_input_def example_state_def example_weights_def
        example_recurrent_def numel_def numeral_2_eq_2)

lemma example_step1:
  "sum_lstm_update \<lparr>shape = [1, 2, 1], elems = [p, q], device = None, trainable = False\<rparr>
     (example_state a) (example_state b) (example_weights ! Suc 0) (example_recurrent ! Suc 0)
   = Inr (\<lparr>shape = [1, 2, 1], elems = [p + q + a, p + q + a], device = None, trainable = False\<rparr>,
          example_state (b + 1))"
  by (simp add: sum_lstm_update_def example_state_def example_weights_def
        example_recurrent_def numel_def numeral_2_eq_2)

lemma example_last_step:
  "last_step \<lparr>shape = [1, 2, 1], elems = [p, q], device = None, trainable = False\<rparr>
   = Inr (example_state q)"
  by (simp add: last_step_def example_state_def row_def numel_def)

lemma example_layers:
  "spec_layers sum_lstm_update [example_state a0, example_state a1]
     [example_state b0, example_state b1] example_weights example_recurrent example_input 2
   = Inr (\<lparr>shape = [1, 2, 1], elems = [20 + 2 * a0 + a1, 20 + 2 * a0 + a1],
            device = None, trainable = False\<rparr>,
          [example_state (10 + a0), example_state (20 + 2 * a0 + a1)],
          [example_state (b0 + 1), example_state (b1 + 1)])"
  by (simp add: numeral_2_eq_2 example_step0 example_step1 example_last_step algebra_simps)

text \<open>
  C2. Let the container of an \<open>LSTM\<close> hold, as created, one input weight and one
  recurrent weight per layer. The forward pass is the sequential pass of the
  specification over all \<open>num_layers\<close> layers: layer \<open>i\<close> runs the update operation
  on the output sequence of the layers before it, its own initial hidden and cell state
  and its own two weights, and its output sequence is the input of layer \<open>i + 1\<close>.
  When the initial state is omitted it is the one that \<open>get_initial_state\<close> returns for
  the shape of the input without its last two dimensions. The equations hold for
  failing runs as well.
\<close>

theorem LSTM_forward_sequential:
  assumes vs: "v self = Container [(''input'', Container (layer_entries wis)),
                                   (''recurrent'', Container (layer_entries wrs))]"
    and lw: "length wis = nat (num_layers self)" "length wrs = nat (num_layers self)"
  shows "LSTM_forward upd self x None
      = ebind (LSTM_get_initial_state self (take (length (shape x) - 2) (shape x)))
          (\<lambda>(hs0, cs0).
             ebind (spec_layers upd hs0 cs0 wis wrs x (nat (num_layers self)))
               (spec_output self))
    \<and> (length hs0 = nat (num_layers self) \<and> length cs0 = nat (num_layers self) \<longrightarrow>
        LSTM_forward upd self x (Some (hs0, cs0))
        = ebind (spec_layers upd hs0 cs0 wis wrs x (nat (num_layers self))) (spec_output self))"
proof (intro conjI impI)
  let ?bs = "take (length (shape x) - 2) (shape x)"
  show "LSTM_forward upd self x None
      = ebind (LSTM_get_initial_state self ?bs)
          (\<lambda>(hs0, cs0).
             ebind (spec_layers upd hs0 cs0 wis wrs x (nat (num_layers self)))
               (spec_output self))"
  proof (cases "LSTM_get_initial_state self ?bs")
    case (Inl e)
    then show ?thesis by (simp add: LSTM_forward_spec_output [OF vs])
  next
    case (Inr st)
    obtain hs cs where st: "st = (hs, cs)" by (cases st)
    from LSTM_get_initial_state_length [OF Inr [unfolded st]]
    show ?thesis by (simp add: LSTM_forward_spec_output [OF vs] Inr st lw)
  qed
next
  assume "length hs0 = nat (num_layers self) \<and> length cs0 = nat (num_layers self)"
  then show "LSTM_forward upd self x (Some (hs0, cs0))
        = ebind (spec_layers upd hs0 cs0 wis wrs x (nat (num_layers self))) (spec_output self)"
    by (simp add: LSTM_forward_spec_output [OF vs] lw)
qed


theorem LSTM_forward_sequential_witness:
  "LSTM_forward sum_lstm_update (example_lstm True True) example_input None
     = ebind (LSTM_get_initial_state (example_lstm True True) [1])
         (\<lambda>(hs0, cs0).
            ebind (spec_layers sum_lstm_update hs0 cs0 example_weights example_recurrent
                     example_input 2)
              (spec_output (example_lstm True True)))
   \<and> LSTM_forward sum_lstm_update (example_lstm True True) example_input None
     = Inr (OutputAndState
              \<lparr>shape = [1, 2, 1], elems = [20, 20], device = None, trainable = False\<rparr>
              ([example_state 10, example_state 20], [example_state 1, example_state 1]))
   \<and> LSTM_forward sum_lstm_update (example_lstm True True) example_input
       (Some ([example_state 1, example_state 2], [example_state 3, example_state 4]))
     = Inr (OutputAndState
              \<lparr>shape = [1, 2, 1], elems = [24, 24], device = None, trainable = False\<rparr>
              ([example_state 11, example_state 24], [example_state 4, example_state 5]))"
proof -
  have vs: "v (example_lstm True True)
      = Container [(''input'', Container (layer_entries example_weights)),
                   (''recurrent'', Container (layer_entries example_recurrent))]"
    by (simp add: example_lstm_def)
  have lw: "length example_weights = nat (num_layers (example_lstm True True))"
    "length example_recurrent = nat (num_layers (example_lstm True True))"
    by (simp_all add: example_lstm_def example_weights_def example_recurrent_def)
  have n: "nat (num_layers (example_lstm True True)) = 2"
    and bs: "take (length (shape example_input) - 2) (shape example_input) = [1]"
    by (simp_all add: example_lstm_def example_input_def)
  note seq = LSTM_forward_sequential [OF vs lw, of sum_lstm_update example_input
      "[example_state 1, example_state 2]" "[example_state 3, example_state 4]", unfolded n bs]
  from seq have none: "LSTM_forward sum_lstm_update (example_lstm True True) example_input None
     = ebind (LSTM_get_initial_state (example_lstm True True) [1])
         (\<lambda>(hs0, cs0).
            ebind (spec_layers sum_lstm_update hs0 cs0 example_weights example_recurrent
                     example_input 2)
              (spec_output (example_lstm True True)))"
    by (rule conjunct1)
  from seq have some: "LSTM_forward sum_lstm_update (example_lstm True True) example_input
       (Some ([example_state 1, example_state 2], [example_state 3, example_state 4]))
     = ebind (spec_layers sum_lstm_update [example_state 1, example_state 2]
                [example_state 3, example_state 4] example_weights example_recurrent
                example_input 2)
         (spec_output (example_lstm True True))"
    by simp
  have out: "return_sequence (example_lstm True True)" "return_state (example_lstm True True)"
    by (simp_all add: example_lstm_def)
  show ?thesis
  proof (intro conjI)
    show "LSTM_forward sum_lstm_update (example_lstm True True) example_input None
     = ebind (LSTM_get_initial_state (example_lstm True True) [1])
         (\<lambda>(hs0, cs0).
            ebind (spec_layers sum_lstm_update hs0 cs0 example_weights example_recurrent
                     example_input 2)
              (spec_output (example_lstm True True)))"
      by (rule none)
    show "LSTM_forward sum_lstm_update (example_lstm True True) example_input None
     = Inr (OutputAndState
              \<lparr>shape = [1, 2, 1], elems = [20, 20], device = None, trainable = False\<rparr>
              ([example_state 10, example_state 20], [example_state 1, example_state 1]))"
      unfolding none example_initial_state
      by (simp add: example_layers spec_output_def out)
    show "LSTM_forward sum_lstm_update (example_lstm True True) example_input
       (Some ([example_state 1, example_state 2], [example_state 3, example_state 4]))
     = Inr (OutputAndState
              \<lparr>shape = [1, 2, 1], elems = [24, 24], device = None, trainable = False\<rparr>
              ([example_state 11, example_state 24], [example_state 4, example_state 5]))"
      unfolding some
      by (simp add: example_layers spec_output_def out)
  qed
qed

subsection \<open>LSTM: results of the forward pass\<close>

lemma sum_lstm_update_contract: "lstm_update_contract sum_lstm_update"
  unfolding lstm_update_contract_def
  by (intro allI impI) (simp add: sum_lstm_update_def)

lemma spec_layers_cong:
  "\<forall>i<k. wis ! i = wis' ! i \<and> wrs ! i = wrs' ! i \<Longrightarrow>
   spec_layers upd hs0 cs0 wis wrs x k = spec_layers upd hs0 cs0 wis' wrs' x k"
  by (induction k) simp_all

lemma spec_output_Inr:
  assumes "last_step seq = Inr l"
  shows "spec_output self (seq, hs, cs)
    = Inr (if return_state self
           then OutputAndState (if return_sequence self then seq else l) (hs, cs)
           else Output (if return_sequence self then seq else l))"
  using assms by (simp add: spec_output_def)

lemma LSTM_forward_result:
  assumes c: "lstm_update_contract upd"
    and vs: "v self = Container [(''input'', Container (layer_entries wis)),
                                 (''recurrent'', Container (layer_entries wrs))]"
    and x: "shape x = batch @ [T, ic]" and T: "0 < T"
    and st: "(case ist of
                None \<Rightarrow> LSTM_get_initial_state self (take (length (shape x) - 2) (shape x))
              | Some st \<Rightarrow> Inr st) = Inr (hs0, cs0)"
    and k: "k = min (length hs0) (min (length cs0) (min (length wis) (length wrs)))"
    and sh: "\<forall>i<k. shape (hs0 ! i) = batch @ [oc] \<and> shape (cs0 ! i) = batch @ [oc]
          \<and> shape (wis ! i) = [if i = 0 then ic else oc, 4 * oc]
          \<and> shape (wrs ! i) = [oc, 4 * oc]"
  shows "\<exists>seq l hs cs.
      spec_layers upd hs0 cs0 wis wrs x k = Inr (seq, hs, cs)
    \<and> shape seq = batch @ [T, if k = 0 then ic else oc]
    \<and> last_step seq = Inr l \<and> shape l = batch @ [if k = 0 then ic else oc]
    \<and> length hs = k \<and> length cs = k
    \<and> LSTM_forward upd self x ist
        = Inr (if return_state self
               then OutputAndState (if return_sequence self then seq else l) (hs, cs)
               else Output (if return_sequence self then seq else l))"
proof -
  have kk: "k \<le> length hs0" "k \<le> length cs0" "k \<le> length wis" "k \<le> length wrs"
    by (simp_all add: k)
  from spec_layers_shapes [OF c x T kk sh] obtain seq hs cs where
    run: "spec_layers upd hs0 cs0 wis wrs x k = Inr (seq, hs, cs)"
    and seq: "shape seq = batch @ [T, if k = 0 then ic else oc]"
    and len: "length hs = k" "length cs = k"
    by blast
  from last_step_shape [OF seq T] obtain l where
    l: "last_step seq = Inr l" and ls: "shape l = batch @ [if k = 0 then ic else oc]"
    by blast
  have "LSTM_forward upd self x ist = spec_output self (seq, hs, cs)"
    by (simp add: LSTM_forward_spec_output [OF vs] st k [symmetric] run)
  with run seq len l ls show ?thesis
    by (simp only: spec_output_Inr [OF l]) blast
qed


lemma example_shapes:
  "\<forall>i<nat (num_layers (example_lstm rseq rst)).
      shape (example_weights ! i)
        = [if i = 0 then LSTM.input_channels (example_lstm rseq rst)
           else LSTM.output_channels (example_lstm rseq rst),
           4 * LSTM.output_channels (example_lstm rseq rst)]
    \<and> shape (example_recurrent ! i)
        = [LSTM.output_channels (example_lstm rseq rst),
           4 * LSTM.output_channels (example_lstm rseq rst)]"
  by (simp add: example_lstm_def example_weights_def example_recurrent_def
        numeral_2_eq_2 less_Suc_eq)

lemma example_container:
  "v (example_lstm rseq rst)
     = Container [(''input'', Container (layer_entries example_weights)),
                  (''recurrent'', Container (layer_entries example_recurrent))]"
  "length example_weights = nat (num_layers (example_lstm rseq rst))"
  "length example_recurrent = nat (num_layers (example_lstm rseq rst))"
  "0 < num_layers (example_lstm rseq rst)"
  "shape example_input = [1] @ [2, LSTM.input_channels (example_lstm rseq rst)]"
  by (simp_all add: example_lstm_def example_weights_def example_recurrent_def example_input_def)

text \<open>
  C3. Let the update operation meet its shape contract, the container hold the weights
  of \<open>num_layers > 0\<close> layers in the shapes of their creation, the input have shape
  \<open>batch @ [T, input_channels]\<close> with \<open>T > 0\<close>, and the initial state (given, or taken
  from \<open>get_initial_state\<close> when omitted) hold one hidden and one cell state of shape
  \<open>batch @ [output_channels]\<close> per layer. Then the forward pass returns: the layers
  produce an output sequence \<open>seq\<close> of shape \<open>batch @ [T, output_channels]\<close>; the
  returned output is \<open>seq\<close>, or with \<open>return_sequence\<close> false its last timestep, of
  shape \<open>batch @ [output_channels]\<close>; with \<open>return_state\<close> false the result is the
  output alone, otherwise the output with the lists of hidden and cell states, where the
  hidden state of layer \<open>i\<close> is the last timestep of that layer's output sequence.
\<close>

theorem LSTM_forward_output_policy:
  assumes c: "lstm_update_contract upd"
    and vs: "v self = Container [(''input'', Container (layer_entries wis)),
                                 (''recurrent'', Container (layer_entries wrs))]"
    and lw: "length wis = nat (num_layers self)" "length wrs = nat (num_layers self)"
    and n: "0 < num_layers self"
    and ws: "\<forall>i<nat (num_layers self).
          shape (wis ! i) = [if i = 0 then LSTM.input_channels self else LSTM.output_channels self,
                             4 * LSTM.output_channels self]
        \<and> shape (wrs ! i) = [LSTM.output_channels self, 4 * LSTM.output_channels self]"
    and x: "shape x = batch @ [T, LSTM.input_channels self]" and T: "0 < T"
    and st: "(case ist of
                None \<Rightarrow> LSTM_get_initial_state self (take (length (shape x) - 2) (shape x))
              | Some st \<Rightarrow> Inr st) = Inr (hs0, cs0)"
    and ls: "length hs0 = nat (num_layers self)" "length cs0 = nat (num_layers self)"
    and ss: "list_all (\<lambda>t. shape t = batch @ [LSTM.output_channels self]) (hs0 @ cs0)"
  shows "\<exists>seq l hs cs.
      spec_layers upd hs0 cs0 wis wrs x (nat (num_layers self)) = Inr (seq, hs, cs)
    \<and> shape seq = batch @ [T, LSTM.output_channels self]
    \<and> last_step seq = Inr l \<and> shape l = batch @ [LSTM.output_channels self]
    \<and> length hs = nat (num_layers self) \<and> length cs = nat (num_layers self)
    \<and> (\<forall>i<nat (num_layers self).
          \<exists>s. spec_layers upd hs0 cs0 wis wrs x (Suc i)
                 = Inr (s, take (Suc i) hs, take (Suc i) cs)
              \<and> last_step s = Inr (hs ! i))
    \<and> LSTM_forward upd self x ist
        = Inr (if return_state self
               then OutputAndState (if return_sequence self then seq else l) (hs, cs)
               else Output (if return_sequence self then seq else l))"
proof -
  let ?n = "nat (num_layers self)"
  have k: "?n = min (length hs0) (min (length cs0) (min (length wis) (length wrs)))"
    by (simp add: lw ls)
  have sh: "\<forall>i<?n. shape (hs0 ! i) = batch @ [LSTM.output_channels self]
          \<and> shape (cs0 ! i) = batch @ [LSTM.output_channels self]
          \<and> shape (wis ! i) = [if i = 0 then LSTM.input_channels self
                                 else LSTM.output_channels self, 4 * LSTM.output_channels self]
          \<and> shape (wrs ! i) = [LSTM.output_channels self, 4 * LSTM.output_channels self]"
  proof -
    from ss have "list_all (\<lambda>t. shape t = batch @ [LSTM.output_channels self]) hs0"
      and "list_all (\<lambda>t. shape t = batch @ [LSTM.output_channels self]) cs0"
      by simp_all
    with ws ls show ?thesis by (simp add: list_all_length)
  qed
  from n have n0: "?n \<noteq> 0" by simp
  from LSTM_forward_result [OF c vs x T st k sh] n0 obtain seq l hs cs where
    run: "spec_layers upd hs0 cs0 wis wrs x ?n = Inr (seq, hs, cs)"
    and seq: "shape seq = batch @ [T, LSTM.output_channels self]"
    and l: "last_step seq = Inr l" "shape l = batch @ [LSTM.output_channels self]"
    and len: "length hs = ?n" "length cs = ?n"
    and fw: "LSTM_forward upd self x ist
        = Inr (if return_state self
               then OutputAndState (if return_sequence self then seq else l) (hs, cs)
               else Output (if return_sequence self then seq else l))"
    by auto
  have hid: "\<forall>i<?n. \<exists>s. spec_layers upd hs0 cs0 wis wrs x (Suc i)
                 = Inr (s, take (Suc i) hs, take (Suc i) cs)
              \<and> last_step s = Inr (hs ! i)"
    using spec_layers_hidden [OF run] by blast
  from run seq l len hid fw show ?thesis by blast
qed

theorem LSTM_forward_output_policy_witness:
  "LSTM_forward sum_lstm_update (example_lstm False True) example_input None
     = Inr (OutputAndState (example_state 20)
              ([example_state 10, example_state 20], [example_state 1, example_state 1]))
   \<and> LSTM_forward sum_lstm_update (example_lstm True False) example_input None
     = Inr (Output \<lparr>shape = [1, 2, 1], elems = [20, 20], device = None, trainable = False\<rparr>)
   \<and> LSTM_forward sum_lstm_update (example_lstm False False) example_input None
     = Inr (Output (example_state 20))
   \<and> shape example_input = [1, 2, 2] \<and> shape (example_state 20) = [1, 1]"
proof -
  have run: "LSTM_forward sum_lstm_update (example_lstm rseq rst) example_input None
      = Inr (if rst
             then OutputAndState
                    (if rseq then \<lparr>shape = [1, 2, 1], elems = [20, 20], device = None,
                                   trainable = False\<rparr>
                     else example_state 20)
                    ([example_state 10, example_state 20], [example_state 1, example_state 1])
             else Output
                    (if rseq then \<lparr>shape = [1, 2, 1], elems = [20, 20], device = None,
                                   trainable = False\<rparr>
                     else example_state 20))" for rseq rst
  proof -
    have st: "(case None of
                None \<Rightarrow> LSTM_get_initial_state (example_lstm rseq rst)
                          (take (length (shape example_input) - 2) (shape example_input))
              | Some st \<Rightarrow> Inr st)
        = Inr ([example_state 0, example_state 0], [example_state 0, example_state 0])"
      by (simp add: example_input_def example_initial_state)
    have ls: "length [example_state 0, example_state 0] = nat (num_layers (example_lstm rseq rst))"
      by (simp add: example_lstm_def)
    have ss: "list_all (\<lambda>t. shape t = [1] @ [LSTM.output_channels (example_lstm rseq rst)])
        ([example_state 0, example_state 0] @ [example_state 0, example_state 0])"
      by (simp add: example_lstm_def example_state_def)
    have n: "nat (num_layers (example_lstm rseq rst)) = 2"
      and fl: "return_sequence (example_lstm rseq rst) = rseq"
        "return_state (example_lstm rseq rst) = rst"
      by (simp_all add: example_lstm_def)
    from LSTM_forward_output_policy
      [OF sum_lstm_update_contract example_container(1,2,3,4) example_shapes
          example_container(5) _ st ls ls ss]
    obtain seq l hs cs where
      lay: "spec_layers sum_lstm_update [example_state 0, example_state 0]
              [example_state 0, example_state 0] example_weights example_recurrent
              example_input 2 = Inr (seq, hs, cs)"
      and l: "last_step seq = Inr l"
      and fw: "LSTM_forward sum_lstm_update (example_lstm rseq rst) example_input None
        = Inr (if rst then OutputAndState (if rseq then seq else l) (hs, cs)
               else Output (if rseq then seq else l))"
      unfolding n fl by auto
    from lay have seq: "seq = \<lparr>shape = [1, 2, 1], elems = [20, 20], device = None,
                               trainable = False\<rparr>"
      and hs: "hs = [example_state 10, example_state 20]"
      and cs: "cs = [example_state 1, example_state 1]"
      by (simp_all add: example_layers)
    from l have "l = example_state 20"
      by (simp add: seq example_last_step)
    with fw seq hs cs show ?thesis by simp
  qed
  show ?thesis
    by (simp add: run) (simp add: example_input_def example_state_def)
qed

text \<open>
  C10. Under the same conditions on update operation, container and input, let the
  given initial state hold only \<open>k < num_layers\<close> hidden and cell states. The forward
  pass raises no error: it returns the result of the first \<open>k\<close> layers alone, with state
  lists of length \<open>k\<close>, the same result as for the container cut down to its first
  \<open>k\<close> layers.
\<close>

theorem LSTM_forward_short_state:
  assumes c: "lstm_update_contract upd"
    and vs: "v self = Container [(''input'', Container (layer_entries wis)),
                                 (''recurrent'', Container (layer_entries wrs))]"
    and lw: "length wis = nat (num_layers self)" "length wrs = nat (num_layers self)"
    and ws: "\<forall>i<nat (num_layers self).
          shape (wis ! i) = [if i = 0 then LSTM.input_channels self else LSTM.output_channels self,
                             4 * LSTM.output_channels self]
        \<and> shape (wrs ! i) = [LSTM.output_channels self, 4 * LSTM.output_channels self]"
    and x: "shape x = batch @ [T, LSTM.input_channels self]" and T: "0 < T"
    and lk: "length hs0 = k" "length cs0 = k"
    and kn: "k < nat (num_layers self)"
    and ss: "list_all (\<lambda>t. shape t = batch @ [LSTM.output_channels self]) (hs0 @ cs0)"
  shows "\<exists>seq l hs cs.
      spec_layers upd hs0 cs0 wis wrs x k = Inr (seq, hs, cs)
    \<and> last_step seq = Inr l
    \<and> length hs = k \<and> length cs = k
    \<and> LSTM_forward upd self x (Some (hs0, cs0))
        = Inr (if return_state self
               then OutputAndState (if return_sequence self then seq else l) (hs, cs)
               else Output (if return_sequence self then seq else l))
    \<and> LSTM_forward upd
         (self\<lparr>v := Container [(''input'', Container (layer_entries (take k wis))),
                                (''recurrent'', Container (layer_entries (take k wrs)))]\<rparr>)
         x (Some (hs0, cs0))
        = LSTM_forward upd self x (Some (hs0, cs0))"
proof -
  let ?self' = "self\<lparr>v := Container [(''input'', Container (layer_entries (take k wis))),
                                     (''recurrent'', Container (layer_entries (take k wrs)))]\<rparr>"
  have k: "k = min (length hs0) (min (length cs0) (min (length wis) (length wrs)))"
    using lk lw kn by simp
  have sh: "\<forall>i<k. shape (hs0 ! i) = batch @ [LSTM.output_channels self]
          \<and> shape (cs0 ! i) = batch @ [LSTM.output_channels self]
          \<and> shape (wis ! i) = [if i = 0 then LSTM.input_channels self
                                 else LSTM.output_channels self, 4 * LSTM.output_channels self]
          \<and> shape (wrs ! i) = [LSTM.output_channels self, 4 * LSTM.output_channels self]"
  proof -
    from ss have "list_all (\<lambda>t. shape t = batch @ [LSTM.output_channels self]) hs0"
      and "list_all (\<lambda>t. shape t = batch @ [LSTM.output_channels self]) cs0"
      by simp_all
    with ws lk kn show ?thesis by (simp add: list_all_length)
  qed
  have st: "(case Some (hs0, cs0) of
                None \<Rightarrow> LSTM_get_initial_state self (take (length (shape x) - 2) (shape x))
              | Some st \<Rightarrow> Inr st) = Inr (hs0, cs0)"
    by simp
  from LSTM_forward_result [OF c vs x T st k sh] obtain seq l hs cs where
    run: "spec_layers upd hs0 cs0 wis wrs x k = Inr (seq, hs, cs)"
    and l: "last_step seq = Inr l"
    and len: "length hs = k" "length cs = k"
    and fw: "LSTM_forward upd self x (Some (hs0, cs0))
        = Inr (if return_state self
               then OutputAndState (if return_sequence self then seq else l) (hs, cs)
               else Output (if return_sequence self then seq else l))"
    by blast
  have vs': "v ?self' = Container [(''input'', Container (layer_entries (take k wis))),
                                   (''recurrent'', Container (layer_entries (take k wrs)))]"
    by simp
  have k': "min (length hs0) (min (length cs0)
              (min (length (take k wis)) (length (take k wrs)))) = k"
    using lk lw kn by simp
  have same: "spec_layers upd hs0 cs0 (take k wis) (take k wrs) x k
      = spec_layers upd hs0 cs0 wis wrs x k"
    by (rule spec_layers_cong) simp
  have out: "spec_output ?self' = spec_output self"
    by (rule ext) (simp add: spec_output_def)
  have "LSTM_forward upd ?self' x (Some (hs0, cs0)) = spec_output self (seq, hs, cs)"
    by (simp add: LSTM_forward_spec_output [OF vs'] k' same run out del: length_take)
  also have "\<dots> = LSTM_forward upd self x (Some (hs0, cs0))"
    by (simp only: fw spec_output_Inr [OF l])
  finally have trunc: "LSTM_forward upd ?self' x (Some (hs0, cs0))
      = LSTM_forward upd self x (Some (hs0, cs0))" .
  from run l len fw trunc show ?thesis by blast
qed


theorem LSTM_forward_short_state_witness:
  "LSTM_forward sum_lstm_update (example_lstm True True) example_input
     (Some ([example_state 1], [example_state 3]))
     = Inr (OutputAndState
              \<lparr>shape = [1, 2, 1], elems = [11, 11], device = None, trainable = False\<rparr>
              ([example_state 11], [example_state 4]))
   \<and> length [example_state 1] < nat (num_layers (example_lstm True True))"
proof -
  have ss: "list_all (\<lambda>t. shape t = [1] @ [LSTM.output_channels (example_lstm True True)])
        ([example_state 1] @ [example_state 3])"
    by (simp add: example_lstm_def example_state_def)
  have kn: "Suc 0 < nat (num_layers (example_lstm True True))"
    and fl: "return_sequence (example_lstm True True)" "return_state (example_lstm True True)"
    by (simp_all add: example_lstm_def)
  from LSTM_forward_short_state
    [OF sum_lstm_update_contract example_container(1,2,3) example_shapes
        example_container(5) _ _ _ kn ss]
  obtain seq l hs cs where
    lay: "spec_layers sum_lstm_update [example_state 1] [example_state 3]
            example_weights example_recurrent example_input (Suc 0) = Inr (seq, hs, cs)"
    and fw: "LSTM_forward sum_lstm_update (example_lstm True True) example_input
               (Some ([example_state 1], [example_state 3]))
        = Inr (OutputAndState seq (hs, cs))"
    using fl by auto
  from lay have "seq = \<lparr>shape = [1, 2, 1], elems = [11, 11], device = None, trainable = False\<rparr>"
    and "hs = [example_state 11]" and "cs = [example_state 4]"
    by (simp_all add: example_step0 [of 1 3, simplified] example_last_step)
  with fw kn show ?thesis by simp
qed

end
